theory Spec2Isabelle
  imports Complex_Main "HOL-Library.AList"
begin

section \<open>MLSecOps risk scoring (mlsecops\_security.py)\<close>

text \<open>
  A shallow embedding of the helpers of \<^verbatim>\<open>mlsecops_security.py\<close>:
  \<^verbatim>\<open>scan_for_data_poisoning\<close>, \<^verbatim>\<open>evaluate_membership_inference_risk\<close>,
  \<^verbatim>\<open>run_adversarial_stress_test\<close> and \<^verbatim>\<open>assemble_security_report\<close>.

  Conventions of the embedding.
  \<^item> A Python exception is a value \<open>Inl e\<close> of \<open>error + 'a\<close>.
  \<^item> A Python float is a real number or the explicit value \<open>NaN\<close>, which numpy produces
    when it reduces an empty array. The doubles are the reals that \<open>round64\<close> leaves fixed.
    Every addition, subtraction, multiplication and decimal literal of the source is the
    IEEE 754 binary64 operation: the exact result rounded to the nearest double, ties to
    even, with gradual underflow. Overflow to infinity is outside the model: no magnitude
    reaches \<open>2\<^sup>1\<^sup>0\<^sup>2\<^sup>4\<close>.
  \<^item> Of the reductions that pandas and numpy perform internally, \<^verbatim>\<open>quantile\<close> follows
    numpy's linear interpolation in double arithmetic, the mean of a boolean array is the
    rounded quotient of two counts, and \<^verbatim>\<open>std\<close> of a DataFrame, whose order of
    accumulation no source line fixes, is a parameter. \<^verbatim>\<open>mean\<close> and \<^verbatim>\<open>var\<close> of an
    array of confidences and the frequencies of \<^verbatim>\<open>value_counts\<close> are taken exact.
  \<^item> A \<^verbatim>\<open>Dict\<close> that ends up in the report is a JSON document; a dictionary is an
    association list, in insertion order.
  \<^item> A DataFrame is a row count and an association list of typed columns.
  \<^item> The file system is a state that is passed in and returned; failures of the
    operating system (permissions, a full disk, a file in the place of a directory) are
    outside the model.
\<close>

subsection \<open>Errors, floats, documents\<close>

datatype error =
    KeyError
  | ValueError
  | TypeError
  | ModelFailure string  \<comment> \<open>whatever the opaque model raised, by name\<close>

datatype pyfloat = Fin real | NaN

text \<open>A scalar is a cell of a DataFrame or a key of a dictionary: a number or a string.\<close>

datatype scalar = Num real | Str string

datatype json =
    JFloat pyfloat
  | JInt int
  | JStr string
  | JList "json list"
  | JDict "(scalar \<times> json) list"

type_synonym dict = "(scalar \<times> json) list"

text \<open>\<^verbatim>\<open>d[k]\<close>: a missing key raises KeyError.\<close>

definition getitem :: "('k \<times> 'v) list \<Rightarrow> 'k \<Rightarrow> error + 'v" where
  "getitem d k = (case map_of d k of None \<Rightarrow> Inl KeyError | Some v \<Rightarrow> Inr v)"

text \<open>\<^verbatim>\<open>d.get(k, default)\<close>.\<close>

definition get_default :: "('k \<times> 'v) list \<Rightarrow> 'k \<Rightarrow> 'v \<Rightarrow> 'v" where
  "get_default d k dflt = (case map_of d k of None \<Rightarrow> dflt | Some v \<Rightarrow> v)"

subsection \<open>RiskScore\<close>

record RiskScore =
  name :: string
  level :: string
  details :: dict
  recommendations :: "string list"

definition to_dict :: "RiskScore \<Rightarrow> dict" where
  "to_dict self =
     [(Str ''name'', JStr (name self)),
      (Str ''level'', JStr (level self)),
      (Str ''details'', JDict (details self)),
      (Str ''recommendations'', JList (map JStr (recommendations self)))]"

subsection \<open>The report assembler\<close>

type_synonym path = "string list"

record filesystem =
  dirs :: "path set"
  files :: "path \<rightharpoonup> json"

text \<open>
  \<^verbatim>\<open>output_dir.mkdir(parents=True, exist_ok=True)\<close>: the directory and all its
  ancestors exist afterwards; an existing directory is not an error.
\<close>

definition mkdir_parents :: "filesystem \<Rightarrow> path \<Rightarrow> filesystem" where
  "mkdir_parents fs p = fs\<lparr>dirs := dirs fs \<union> {take n p | n. n \<le> length p}\<rparr>"

text \<open>
  \<^verbatim>\<open>report_path.write_text(json.dumps(report, indent=2))\<close>: the file holds the
  serialised document; the model keeps the document itself as the file's content.
\<close>

definition write_text :: "filesystem \<Rightarrow> path \<Rightarrow> json \<Rightarrow> filesystem" where
  "write_text fs p doc = fs\<lparr>files := (files fs)(p \<mapsto> doc)\<rparr>"

definition severity_map :: "(string \<times> nat) list" where
  "severity_map = [(''low'', 0), (''medium'', 1), (''high'', 2)]"

text \<open>\<^verbatim>\<open>{value: key for key, value in severity_map.items()}\<close>\<close>

definition reverse_map :: "(nat \<times> string) list" where
  "reverse_map = map (\<lambda>(key, val). (val, key)) severity_map"

text \<open>
  \<^verbatim>\<open>severity_map[risk["level"]]\<close> for one entry: both subscripts can raise KeyError;
  a level that is not a string is not a key of \<open>severity_map\<close> either.
\<close>

definition entry_severity :: "dict \<Rightarrow> error + nat" where
  "entry_severity risk =
     (case getitem risk (Str ''level'') of
        Inl e \<Rightarrow> Inl e
      | Inr (JStr l) \<Rightarrow> getitem severity_map l
      | Inr _ \<Rightarrow> Inl KeyError)"

text \<open>
  \<^verbatim>\<open>max((severity_map[risk["level"]] for risk in risk_entries), default=0)\<close>:
  \<open>max\<close> pulls the generator from the left, so the first entry whose lookup fails
  raises; \<open>acc\<close> is \<open>None\<close> until a first element was produced.
\<close>

fun max_severity :: "nat option \<Rightarrow> dict list \<Rightarrow> error + nat" where
  "max_severity acc [] = Inr (case acc of None \<Rightarrow> 0 | Some m \<Rightarrow> m)"
| "max_severity acc (risk # rest) =
     (case entry_severity risk of
        Inl e \<Rightarrow> Inl e
      | Inr s \<Rightarrow>
          max_severity (Some (case acc of None \<Rightarrow> s | Some m \<Rightarrow> if s > m then s else m)) rest)"

text \<open>\<^verbatim>\<open>[risk["name"] for risk in risk_entries]\<close>\<close>

fun entry_names :: "dict list \<Rightarrow> error + json list" where
  "entry_names [] = Inr []"
| "entry_names (risk # rest) =
     (case getitem risk (Str ''name'') of
        Inl e \<Rightarrow> Inl e
      | Inr n \<Rightarrow> (case entry_names rest of Inl e \<Rightarrow> Inl e | Inr ns \<Rightarrow> Inr (n # ns)))"

record assembled =
  report :: dict
  path :: path

definition assemble_security_report ::
  "filesystem \<Rightarrow> json \<Rightarrow> RiskScore list \<Rightarrow> path \<Rightarrow> filesystem \<times> (error + assembled)" where
  "assemble_security_report fs manifest risks output_dir =
     (let fs1 = mkdir_parents fs output_dir;
          risk_entries = map to_dict risks
      in case max_severity None risk_entries of
           Inl e \<Rightarrow> (fs1, Inl e)
         | Inr aggregate_level \<Rightarrow>
             let aggregate_label = get_default reverse_map aggregate_level ''low''
             in case entry_names risk_entries of
                  Inl e \<Rightarrow> (fs1, Inl e)
                | Inr names \<Rightarrow>
                    let report =
                          [(Str ''manifest'', manifest),
                           (Str ''risks'', JList (map JDict risk_entries)),
                           (Str ''aggregate_risk_level'', JStr aggregate_label),
                           (Str ''owasp_mappings'', JList names),
                           (Str ''mitre_atlas_focus'',
                              JList [JStr ''ML Attack Staging'',
                                     JStr ''ML Model Access'',
                                     JStr ''ML Attack Execution''])];
                        report_path = output_dir @ [''mlsecops_security_report.json''];
                        fs2 = write_text fs1 report_path (JDict report)
                    in (fs2, Inr \<lparr>report = report, path = report_path\<rparr>))"

subsection \<open>The severity ordinal, as the specification words it\<close>

text \<open>
  The ordinal mapping low = 0 < medium = 1 < high = 2 and the maximum level of a
  collection of levels, low for the empty collection. These two definitions follow the
  specification, not the code; the theorems below compare the code with them.
\<close>

definition level_ordinal :: "string \<Rightarrow> nat" where
  "level_ordinal l = (if l = ''high'' then 2 else if l = ''medium'' then 1 else 0)"

definition ordinal_level :: "nat \<Rightarrow> string" where
  "ordinal_level n = (if n = 2 then ''high'' else if n = 1 then ''medium'' else ''low'')"

definition spec_aggregate_level :: "string list \<Rightarrow> string" where
  "spec_aggregate_level ls = ordinal_level (Max (insert 0 (level_ordinal ` set ls)))"

definition known_level :: "string \<Rightarrow> bool" where
  "known_level l \<longleftrightarrow> l = ''low'' \<or> l = ''medium'' \<or> l = ''high''"

subsection \<open>Double arithmetic\<close>

text \<open>
  Rounding to binary64. A real \<open>x \<noteq> 0\<close> with \<open>2\<^sup>e \<le> \<bar>x\<bar> < 2\<^sup>e\<^sup>+\<^sup>1\<close> lies between two
  neighbouring multiples of \<open>2\<^sup>e\<^sup>-\<^sup>5\<^sup>2\<close> (53 significant bits), or of \<open>2\<^sup>-\<^sup>1\<^sup>0\<^sup>7\<^sup>4\<close> in the
  subnormal range; \<open>round64 x\<close> is the nearer one, the one with the even multiplier when
  \<open>x\<close> is half way.
\<close>

definition expo :: "real \<Rightarrow> int" where
  "expo x = \<lfloor>log 2 \<bar>x\<bar>\<rfloor>"

definition ulp_exp :: "real \<Rightarrow> int" where
  "ulp_exp x = max (expo x - 52) (- 1074)"

definition round_half_even :: "real \<Rightarrow> int" where
  "round_half_even y =
     (let f = \<lfloor>y\<rfloor>; r = y - of_int f
      in if r < 1/2 then f else if 1/2 < r then f + 1 else if even f then f else f + 1)"

definition round64 :: "real \<Rightarrow> real" where
  "round64 x =
     (if x = 0 then 0
      else of_int (round_half_even (x / 2 powi ulp_exp x)) * 2 powi ulp_exp x)"

text \<open>Arithmetic propagates NaN; every comparison with NaN is false.\<close>

fun fadd :: "pyfloat \<Rightarrow> pyfloat \<Rightarrow> pyfloat" where
  "fadd (Fin a) (Fin b) = Fin (round64 (a + b))"
| "fadd _ _ = NaN"

fun fsub :: "pyfloat \<Rightarrow> pyfloat \<Rightarrow> pyfloat" where
  "fsub (Fin a) (Fin b) = Fin (round64 (a - b))"
| "fsub _ _ = NaN"

fun fmul :: "pyfloat \<Rightarrow> pyfloat \<Rightarrow> pyfloat" where
  "fmul (Fin a) (Fin b) = Fin (round64 (a * b))"
| "fmul _ _ = NaN"

fun flt :: "pyfloat \<Rightarrow> pyfloat \<Rightarrow> bool" where
  "flt (Fin a) (Fin b) \<longleftrightarrow> a < b"
| "flt _ _ \<longleftrightarrow> False"

fun fgt :: "pyfloat \<Rightarrow> pyfloat \<Rightarrow> bool" where
  "fgt (Fin a) (Fin b) \<longleftrightarrow> a > b"
| "fgt _ _ \<longleftrightarrow> False"

fun fge :: "pyfloat \<Rightarrow> pyfloat \<Rightarrow> bool" where
  "fge (Fin a) (Fin b) \<longleftrightarrow> a \<ge> b"
| "fge _ _ \<longleftrightarrow> False"

text \<open>Python's \<^verbatim>\<open>max(a, b)\<close> keeps \<open>a\<close> unless \<open>b > a\<close>.\<close>

definition pymax :: "pyfloat \<Rightarrow> pyfloat \<Rightarrow> pyfloat" where
  "pymax a b = (if fgt b a then b else a)"

text \<open>
  \<^verbatim>\<open>.mean()\<close> and \<^verbatim>\<open>.var()\<close> of an array of confidences: the population statistics;
  numpy returns NaN for an empty array.
\<close>

definition mean :: "real list \<Rightarrow> pyfloat" where
  "mean xs = (if xs = [] then NaN else Fin (sum_list xs / real (length xs)))"

definition var :: "real list \<Rightarrow> pyfloat" where
  "var xs =
     (if xs = [] then NaN
      else let m = sum_list xs / real (length xs)
           in Fin (sum_list (map (\<lambda>x. (x - m)\<^sup>2) xs) / real (length xs)))"

text \<open>
  \<^verbatim>\<open>np.mean\<close> of a boolean array, also behind \<^verbatim>\<open>accuracy_score\<close>: the number of true
  entries divided by the length, one division of two integers that doubles hold exactly.
\<close>

definition proportion :: "bool list \<Rightarrow> pyfloat" where
  "proportion bs =
     (if bs = [] then NaN
      else Fin (round64 (real (length (filter (\<lambda>b. b) bs)) / real (length bs))))"

subsection \<open>DataFrames\<close>

datatype column = NumCol "real list" | StrCol "string list"

fun cells :: "column \<Rightarrow> scalar list" where
  "cells (NumCol xs) = map Num xs"
| "cells (StrCol xs) = map Str xs"

record frame =
  nrows :: nat
  columns :: "(string \<times> column) list"

text \<open>The invariant of a DataFrame: every column has one cell per row, names are distinct.\<close>

definition wf_frame :: "frame \<Rightarrow> bool" where
  "wf_frame df \<longleftrightarrow>
     distinct (map fst (columns df)) \<and>
     list_all (\<lambda>(n, c). length (cells c) = nrows df) (columns df)"

text \<open>\<^verbatim>\<open>df[column] = values\<close>: replaces the column in place, or appends a new one.\<close>

definition setitem :: "frame \<Rightarrow> string \<Rightarrow> column \<Rightarrow> frame" where
  "setitem df c v = df\<lparr>columns := AList.update c v (columns df)\<rparr>"

text \<open>\<^verbatim>\<open>df.drop(columns=[c])\<close>: a new frame; a missing label raises KeyError.\<close>

definition drop_column :: "frame \<Rightarrow> string \<Rightarrow> error + frame" where
  "drop_column df c =
     (case map_of (columns df) c of
        None \<Rightarrow> Inl KeyError
      | Some _ \<Rightarrow> Inr (df\<lparr>columns := AList.delete c (columns df)\<rparr>))"

text \<open>\<^verbatim>\<open>mask.sum()\<close>: the number of true entries of a boolean array.\<close>

definition count_true :: "bool list \<Rightarrow> nat" where
  "count_true bs = length (filter (\<lambda>b. b) bs)"

text \<open>\<^verbatim>\<open>df[mask]\<close>: the rows whose mask entry is true.\<close>

definition select :: "bool list \<Rightarrow> 'a list \<Rightarrow> 'a list" where
  "select keep xs = map snd (filter fst (zip keep xs))"

fun select_column :: "bool list \<Rightarrow> column \<Rightarrow> column" where
  "select_column keep (NumCol xs) = NumCol (select keep xs)"
| "select_column keep (StrCol xs) = StrCol (select keep xs)"

definition select_rows :: "frame \<Rightarrow> bool list \<Rightarrow> frame" where
  "select_rows df keep =
     \<lparr>nrows = count_true (take (nrows df) keep),
      columns = map (\<lambda>(n, c). (n, select_column keep c)) (columns df)\<rparr>"

text \<open>
  The rows of a frame, each the list of its cells in column order. Every column of a
  DataFrame has \<open>nrows\<close> cells (\<open>wf_frame\<close>), so the index is in range.
\<close>

definition frame_rows :: "frame \<Rightarrow> scalar list list" where
  "frame_rows df = map (\<lambda>i. map (\<lambda>(n, c). cells c ! i) (columns df)) [0..<nrows df]"

text \<open>
  \<^verbatim>\<open>df.duplicated()\<close>: a row is marked when an earlier row equals it in every column;
  pandas marks nothing in a frame without rows or without columns.
\<close>

fun duplicated_from :: "'a list \<Rightarrow> 'a list \<Rightarrow> bool list" where
  "duplicated_from seen [] = []"
| "duplicated_from seen (r # rs) = (r \<in> set seen) # duplicated_from (r # seen) rs"

definition duplicated :: "frame \<Rightarrow> bool list" where
  "duplicated df = (if columns df = [] then [] else duplicated_from [] (frame_rows df))"

text \<open>
  \<^verbatim>\<open>series.value_counts(normalize=True).to_dict()\<close>: the relative frequency of each
  distinct value, most frequent first, ties in order of first appearance.
\<close>

definition value_counts :: "scalar list \<Rightarrow> (scalar \<times> real) list" where
  "value_counts xs =
     sort_key (\<lambda>(v, f). - f)
       (map (\<lambda>v. (v, real (count_list xs v) / real (length xs))) (rev (remdups (rev xs))))"

text \<open>\<^verbatim>\<open>max(values)\<close> of Python: ValueError on an empty sequence.\<close>

definition max_of :: "real list \<Rightarrow> error + real" where
  "max_of xs = (case xs of [] \<Rightarrow> Inl ValueError | x # rest \<Rightarrow> Inr (fold (\<lambda>y m. if y > m then y else m) rest x))"

text \<open>
  \<^verbatim>\<open>series.quantile(q)\<close>, which pandas hands to \<^verbatim>\<open>np.percentile\<close> with the method
  \<^verbatim>\<open>linear\<close>: NaN for an empty series; otherwise the sorted values at the index below the
  virtual index \<open>q \<sqdot> (n - 1)\<close> and at the next index are interpolated by numpy's
  \<^verbatim>\<open>_lerp\<close>, which computes \<open>a + (b - a) \<sqdot> t\<close>, or \<open>b - (b - a) \<sqdot> (1 - t)\<close> from
  \<open>t = 0.5\<close> on, every operation rounded. For the two quantiles in use, 0.25 and 0.75, the
  virtual index and its fractional part are exact below \<open>2\<^sup>5\<^sup>1\<close> rows.
\<close>

definition lerp :: "real \<Rightarrow> real \<Rightarrow> real \<Rightarrow> real" where
  "lerp a b t =
     (let diff_b_a = round64 (b - a)
      in if 1/2 \<le> t then round64 (b - round64 (diff_b_a * round64 (1 - t)))
         else round64 (a + round64 (diff_b_a * t)))"

definition quantile :: "real list \<Rightarrow> real \<Rightarrow> pyfloat" where
  "quantile xs q =
     (if xs = [] then NaN
      else let s = sort xs;
               n = length xs;
               virtual_index = q * real (n - 1);
               previous_index = nat \<lfloor>virtual_index\<rfloor>;
               next_index = min (previous_index + 1) (n - 1);
               gamma = virtual_index - real previous_index
           in Fin (lerp (s ! previous_index) (s ! next_index) gamma))"

subsection \<open>The poisoning scanner\<close>

text \<open>
  The body of the loop over \<open>numeric_columns\<close>: \<open>mask\<close> marks the cells of one column that
  lie below \<open>lower\<close> or above \<open>upper\<close>, and their number is added to \<open>outlier_rows\<close>.
  The three assignments \<^verbatim>\<open>iqr = q3 - q1\<close>, \<^verbatim>\<open>lower = q1 - (3 * iqr)\<close> and
  \<^verbatim>\<open>upper = q3 + (3 * iqr)\<close> are double operations, five roundings in all.
  Quantiles of a column of strings raise TypeError.
\<close>

definition outlier_mask :: "real list \<Rightarrow> bool list" where
  "outlier_mask series =
     (let q1 = quantile series (1/4);
          q3 = quantile series (3/4);
          iqr = fsub q3 q1;
          lower = fsub q1 (fmul (Fin 3) iqr);
          upper = fadd q3 (fmul (Fin 3) iqr)
      in map (\<lambda>v. flt (Fin v) lower \<or> fgt (Fin v) upper) series)"

fun count_outliers :: "frame \<Rightarrow> nat \<Rightarrow> string list \<Rightarrow> error + nat" where
  "count_outliers df outlier_rows [] = Inr outlier_rows"
| "count_outliers df outlier_rows (column # rest) =
     (case getitem (columns df) column of
        Inl e \<Rightarrow> Inl e
      | Inr (StrCol _) \<Rightarrow> Inl TypeError
      | Inr (NumCol series) \<Rightarrow>
          count_outliers df (outlier_rows + count_true (outlier_mask series)) rest)"

text \<open>
  The issue messages are f-strings; a message is kept as the list of its pieces, with the
  interpolated number unrendered.
\<close>

definition scan_for_data_poisoning :: "frame \<Rightarrow> string \<Rightarrow> string list \<Rightarrow> error + RiskScore" where
  "scan_for_data_poisoning df label_column numeric_columns =
     (let issues0 = [];
          duplicate_rows = count_true (duplicated df);
          issues1 = (if duplicate_rows \<noteq> 0
                     then issues0 @ [JList [JInt (int duplicate_rows), JStr '' duplicated rows detected.'']]
                     else issues0)
      in case getitem (columns df) label_column of
           Inl e \<Rightarrow> Inl e
         | Inr labels \<Rightarrow>
             let class_balance = value_counts (cells labels)
             in case max_of (map snd class_balance) of
                  Inl e \<Rightarrow> Inl e
                | Inr majority \<Rightarrow>
                    let issues2 = (if majority > 0.75
                                   then issues1 @ [JList [JStr ''Label imbalance detected (majority class frequency='',
                                                          JFloat (Fin majority), JStr '').'']]
                                   else issues1)
                    in case count_outliers df 0 numeric_columns of
                         Inl e \<Rightarrow> Inl e
                       | Inr outlier_rows \<Rightarrow>
                           let issues = (if outlier_rows \<noteq> 0
                                         then issues2 @ [JList [JInt (int outlier_rows),
                                                                JStr '' numeric rows outside 3*IQR boundaries.'']]
                                         else issues2);
                               level = (if issues = [] then ''low''
                                        else if length issues = 1 then ''medium''
                                        else ''high'');
                               recommendations =
                                 [''Review upstream data sources and retrace provenance chain.'',
                                  ''Validate contributor identities for user-generated data.'',
                                  ''Regenerate dataset from trusted sources if tampering is confirmed.'']
                           in Inr \<lparr>name = ''OWASP-ML02-DataPoisoning'',
                                   level = level,
                                   details = [(Str ''issues'', JList issues),
                                              (Str ''class_balance'',
                                                 JDict (map (\<lambda>(v, f). (v, JFloat (Fin f))) class_balance))],
                                   recommendations = recommendations\<rparr>)"

subsection \<open>The opaque model\<close>

text \<open>
  The trained model is a capability with two methods over a features-only frame. Each may
  raise; what it raises is recorded by name.
\<close>

record model =
  predict :: "frame \<Rightarrow> error + scalar list"
  predict_proba :: "frame \<Rightarrow> error + real list list"

subsection \<open>The membership-inference assessor\<close>

text \<open>
  \<^verbatim>\<open>proba.max(axis=1)\<close>: the largest entry of every row; a row without entries has no
  maximum and numpy raises ValueError. A table without rows gives an empty array.
\<close>

fun row_max :: "real list list \<Rightarrow> error + real list" where
  "row_max [] = Inr []"
| "row_max (r # rs) =
     (case max_of r of
        Inl e \<Rightarrow> Inl e
      | Inr m \<Rightarrow> (case row_max rs of Inl e \<Rightarrow> Inl e | Inr ms \<Rightarrow> Inr (m # ms)))"

definition evaluate_membership_inference_risk ::
  "model \<Rightarrow> frame \<Rightarrow> frame \<Rightarrow> string \<Rightarrow> error + RiskScore" where
  "evaluate_membership_inference_risk model train_df test_df label_column =
     (case drop_column train_df label_column of
        Inl e \<Rightarrow> Inl e
      | Inr train_features \<Rightarrow>
     (case drop_column test_df label_column of
        Inl e \<Rightarrow> Inl e
      | Inr test_features \<Rightarrow>
     (case predict_proba model train_features of
        Inl e \<Rightarrow> Inl e
      | Inr train_proba \<Rightarrow>
     (case row_max train_proba of
        Inl e \<Rightarrow> Inl e
      | Inr train_conf \<Rightarrow>
     (case predict_proba model test_features of
        Inl e \<Rightarrow> Inl e
      | Inr test_proba \<Rightarrow>
     (case row_max test_proba of
        Inl e \<Rightarrow> Inl e
      | Inr test_conf \<Rightarrow>
          let confidence_gap = fsub (mean train_conf) (mean test_conf);
              variance_gap = fsub (var train_conf) (var test_conf);
              level = (if fgt confidence_gap (Fin (round64 (15/100))) then ''high''
                       else if fgt confidence_gap (Fin (round64 (8/100))) then ''medium''
                       else ''low'');
              recommendations =
                [''Reduce overfitting (regularisation, more data, early stopping).'',
                 ''Consider confidence clipping or logit rounding on inference APIs.'',
                 ''Add differential privacy noise before exposing model outputs.'']
          in Inr \<lparr>name = ''OWASP-ML03-ML04-Privacy'',
                  level = level,
                  details = [(Str ''train_confidence_mean'', JFloat (mean train_conf)),
                             (Str ''test_confidence_mean'', JFloat (mean test_conf)),
                             (Str ''confidence_gap'', JFloat confidence_gap),
                             (Str ''variance_gap'', JFloat variance_gap)],
                  recommendations = recommendations\<rparr>))))))"

subsection \<open>The adversarial stress tester\<close>

text \<open>
  What the function takes from numpy, pandas and scikit-learn without defining it: the
  random generator (a state of an arbitrary type \<open>'g\<close>, a constructor from a seed, and the
  two draws, each returning the drawn array and the advanced state), \<^verbatim>\<open>accuracy_score\<close>
  and the standard deviation \<^verbatim>\<open>.std(ddof=0)\<close> of one column. They are parameters of the
  model. \<open>rng_normal g scale n k\<close> is \<^verbatim>\<open>rng.normal(loc=0.0, scale=scale, size=(n, k))\<close>,
  the array given as a function of row and column; \<open>rng_random g n\<close> is \<^verbatim>\<open>rng.random(n)\<close>.

  A library value, like a model value, is the behaviour of the library during one run: the
  environment of that run. Two runs need not have the same environment. That the generator
  of a second run draws as that of the first did, or that the model predicts as before, is
  a relation between two environments; where a theorem needs it, it is a hypothesis.
\<close>

record 'g library =
  default_rng :: "nat \<Rightarrow> 'g"
  rng_normal :: "'g \<Rightarrow> pyfloat list \<Rightarrow> nat \<Rightarrow> nat \<Rightarrow> (nat \<Rightarrow> nat \<Rightarrow> real) \<times> 'g"
  rng_random :: "'g \<Rightarrow> nat \<Rightarrow> (nat \<Rightarrow> real) \<times> 'g"
  accuracy_score :: "scalar list \<Rightarrow> scalar list \<Rightarrow> error + pyfloat"
  std :: "real list \<Rightarrow> pyfloat"

text \<open>
  DataFrames are mutable objects that the caller and the function share by reference: the
  store holds the objects, a reference is an index into it, and a new object is appended.
\<close>

type_synonym store = "frame list"

text \<open>\<^verbatim>\<open>test_df[list(numeric_columns)]\<close>: KeyError when a column is missing.\<close>

fun getitems :: "frame \<Rightarrow> string list \<Rightarrow> error + column list" where
  "getitems df [] = Inr []"
| "getitems df (c # cs) =
     (case getitem (columns df) c of
        Inl e \<Rightarrow> Inl e
      | Inr v \<Rightarrow> (case getitems df cs of Inl e \<Rightarrow> Inl e | Inr vs \<Rightarrow> Inr (v # vs)))"

text \<open>\<^verbatim>\<open>.std(ddof=0)\<close> of every selected column: TypeError on a column of strings.\<close>

fun stds :: "(real list \<Rightarrow> pyfloat) \<Rightarrow> column list \<Rightarrow> error + pyfloat list" where
  "stds sd [] = Inr []"
| "stds sd (StrCol _ # cs) = Inl TypeError"
| "stds sd (NumCol xs # cs) =
     (case stds sd cs of Inl e \<Rightarrow> Inl e | Inr ss \<Rightarrow> Inr (sd xs # ss))"

text \<open>\<^verbatim>\<open>.replace(0, 1)\<close> on one entry.\<close>

definition replace_0_1 :: "pyfloat \<Rightarrow> pyfloat" where
  "replace_0_1 s = (case s of NaN \<Rightarrow> NaN | Fin x \<Rightarrow> if x = 0 then Fin 1 else Fin x)"

text \<open>\<^verbatim>\<open>np.clip(x, lo, None)\<close> on one entry: NaN stays NaN.\<close>

definition clip_lower :: "pyfloat \<Rightarrow> real \<Rightarrow> pyfloat" where
  "clip_lower s lo = (case s of NaN \<Rightarrow> NaN | Fin x \<Rightarrow> Fin (max x lo))"

text \<open>
  Lines 212 and 215: the \<open>scale\<close> argument of \<^verbatim>\<open>rng.normal\<close>, one entry per numeric
  column, computed on the frame that is passed (the function passes \<open>test_df\<close>). The
  product with \<open>epsilon\<close> is a double multiplication and \<^verbatim>\<open>1e-3\<close> is the double nearest
  to 0.001.
\<close>

definition noise_scale ::
  "'g library \<Rightarrow> frame \<Rightarrow> string list \<Rightarrow> real \<Rightarrow> error + pyfloat list" where
  "noise_scale lib test_df numeric_columns epsilon =
     (case getitems test_df numeric_columns of
        Inl e \<Rightarrow> Inl e
      | Inr selected \<Rightarrow>
          (case stds (std lib) selected of
             Inl e \<Rightarrow> Inl e
           | Inr sd \<Rightarrow>
               let numeric_stats = map replace_0_1 sd
               in Inr (map (\<lambda>s. clip_lower (fmul s (Fin epsilon)) (round64 (1/1000)))
                         numeric_stats)))"

text \<open>
  The loop \<^verbatim>\<open>for idx, column in enumerate(numeric_columns)\<close>: every iteration writes one
  column of the object \<open>perturbed\<close>, the double sum of each cell and its noise.
\<close>

fun add_noise ::
  "(nat \<Rightarrow> nat \<Rightarrow> real) \<Rightarrow> nat \<Rightarrow> (nat \<times> string) list \<Rightarrow> store \<Rightarrow> (error + unit) \<times> store" where
  "add_noise noise perturbed [] h = (Inr (), h)"
| "add_noise noise perturbed ((idx, column) # rest) h =
     (case getitem (columns (h ! perturbed)) column of
        Inl e \<Rightarrow> (Inl e, h)
      | Inr (StrCol _) \<Rightarrow> (Inl TypeError, h)
      | Inr (NumCol xs) \<Rightarrow>
          add_noise noise perturbed rest
            (h[perturbed := setitem (h ! perturbed) column
                 (NumCol (map (\<lambda>(i, x). round64 (x + noise i idx)) (enumerate 0 xs)))]))"

text \<open>
  \<^verbatim>\<open>perturbed.loc[trigger_mask, text_column] = perturbed.loc[trigger_mask, text_column] + f" {trigger_phrase}"\<close>
\<close>

definition plant_trigger ::
  "nat \<Rightarrow> bool list \<Rightarrow> string \<Rightarrow> string \<Rightarrow> store \<Rightarrow> (error + unit) \<times> store" where
  "plant_trigger perturbed trigger_mask text_column trigger_phrase h =
     (case getitem (columns (h ! perturbed)) text_column of
        Inl e \<Rightarrow> (Inl e, h)
      | Inr (NumCol _) \<Rightarrow> (Inl TypeError, h)
      | Inr (StrCol ts) \<Rightarrow>
          (Inr (),
           h[perturbed := setitem (h ! perturbed) text_column
               (StrCol (map (\<lambda>(m, t). if m then t @ '' '' @ trigger_phrase else t)
                          (zip trigger_mask ts)))]))"

text \<open>
  \<^verbatim>\<open>np.mean(triggered_preds != labels)\<close> on a non-empty subset: the arrays are compared
  entry by entry, which needs equal lengths.
\<close>

definition mean_differs :: "scalar list \<Rightarrow> scalar list \<Rightarrow> error + pyfloat" where
  "mean_differs preds labels =
     (if length preds \<noteq> length labels then Inl ValueError
      else Inr (proportion (map (\<lambda>(p, l). p \<noteq> l) (zip preds labels))))"

text \<open>
  Lines 226 to 266: nothing is written any more, the perturbed frame is only read. The
  difference \<^verbatim>\<open>baseline_accuracy - adv_accuracy\<close> is a double subtraction and the two
  thresholds are the doubles nearest to 0.2 and 0.1.
\<close>

definition score_perturbed ::
  "'g library \<Rightarrow> model \<Rightarrow> frame \<Rightarrow> string \<Rightarrow> bool list \<Rightarrow> real \<Rightarrow> error + RiskScore" where
  "score_perturbed lib model perturbed label_column trigger_mask baseline_accuracy =
     (case drop_column perturbed label_column of
        Inl e \<Rightarrow> Inl e
      | Inr features \<Rightarrow>
     (case getitem (columns perturbed) label_column of
        Inl e \<Rightarrow> Inl e
      | Inr labels \<Rightarrow>
     (case predict model features of
        Inl e \<Rightarrow> Inl e
      | Inr adv_predictions \<Rightarrow>
     (case accuracy_score lib (cells labels) adv_predictions of
        Inl e \<Rightarrow> Inl e
      | Inr adv_accuracy \<Rightarrow>
          let degradation = pymax (Fin 0) (fsub (Fin baseline_accuracy) adv_accuracy);
              triggered_subset = select_rows perturbed trigger_mask
          in case (if nrows triggered_subset \<noteq> 0 \<and> columns triggered_subset \<noteq> []
                   then (case drop_column triggered_subset label_column of
                           Inl e \<Rightarrow> Inl e
                         | Inr triggered_features \<Rightarrow>
                        (case predict model triggered_features of
                           Inl e \<Rightarrow> Inl e
                         | Inr triggered_preds \<Rightarrow>
                        (case getitem (columns triggered_subset) label_column of
                           Inl e \<Rightarrow> Inl e
                         | Inr triggered_labels \<Rightarrow>
                             mean_differs triggered_preds (cells triggered_labels))))
                   else Inr (Fin 0)) of
               Inl e \<Rightarrow> Inl e
             | Inr targeted_success \<Rightarrow>
                 let level = (if fge degradation (Fin (round64 (2/10))) then ''high''
                              else if fge degradation (Fin (round64 (1/10))) then ''medium''
                              else ''low'');
                     recommendations =
                       [''Introduce adversarial training (FGSM/PGD) in CI pipelines.'',
                        ''Limit inference outputs to class labels or rounded confidences.'',
                        ''Add rate limiting and anomaly detection around inference APIs.'']
                 in Inr \<lparr>name = ''OWASP-ML01-AdversarialEvasion'',
                         level = level,
                         details =
                           [(Str ''baseline_accuracy'', JFloat (Fin baseline_accuracy)),
                            (Str ''adversarial_accuracy'', JFloat adv_accuracy),
                            (Str ''accuracy_degradation'', JFloat degradation),
                            (Str ''triggered_subset_size'',
                               JInt (int (count_true trigger_mask))),
                            (Str ''targeted_success_rate'', JFloat targeted_success)],
                         recommendations = recommendations\<rparr>))))"

text \<open>
  The function itself. It takes the store and the reference \<open>test_df\<close> of the caller's
  frame and returns, also when it raises, the store and the generator state it leaves
  behind. \<open>rng = None\<close> is the default of the parameter. The deep copy is the new object at
  the end of the store.
\<close>

definition run_adversarial_stress_test ::
  "'g library \<Rightarrow> model \<Rightarrow> store \<Rightarrow> nat \<Rightarrow> string \<Rightarrow> string list \<Rightarrow> string \<Rightarrow> real \<Rightarrow> real \<Rightarrow>
   string \<Rightarrow> 'g option \<Rightarrow> (error + RiskScore) \<times> store \<times> 'g" where
  "run_adversarial_stress_test lib model h test_df label_column numeric_columns text_column
       baseline_accuracy epsilon trigger_phrase rng0 =
     (let rng = (case rng0 of None \<Rightarrow> default_rng lib 42 | Some g \<Rightarrow> g);
          perturbed = length h;
          h1 = h @ [h ! test_df]
      in case noise_scale lib (h1 ! test_df) numeric_columns epsilon of
           Inl e \<Rightarrow> (Inl e, h1, rng)
         | Inr scale \<Rightarrow>
             (case rng_normal lib rng scale (nrows (h1 ! test_df)) (length numeric_columns) of
                (noise, rng1) \<Rightarrow>
             (case add_noise noise perturbed (enumerate 0 numeric_columns) h1 of
                (Inl e, h2) \<Rightarrow> (Inl e, h2, rng1)
              | (Inr _, h2) \<Rightarrow>
             (case rng_random lib rng1 (nrows (h2 ! perturbed)) of
                (u, rng2) \<Rightarrow>
                  let trigger_mask = map (\<lambda>i. u i < round64 (3/10)) [0..<nrows (h2 ! perturbed)]
                  in (case plant_trigger perturbed trigger_mask text_column trigger_phrase h2 of
                        (Inl e, h3) \<Rightarrow> (Inl e, h3, rng2)
                      | (Inr _, h3) \<Rightarrow>
                          (score_perturbed lib model (h3 ! perturbed) label_column trigger_mask
                             baseline_accuracy,
                           h3, rng2))))))"

text \<open>
  The perturbed copy of a run: the object that the run has appended to the store.
\<close>

definition perturbed_copy :: "(error + RiskScore) \<times> store \<times> 'g \<Rightarrow> frame" where
  "perturbed_copy outcome = last (fst (snd outcome))"

subsection \<open>A stand-in library and model for concrete runs\<close>

text \<open>
  To run the functions on concrete inputs the parameters need values. The generator below
  is a counter whose draws are fixed functions of the counter: the normal draw of a column
  is its scale, the uniform draw alternates between 0.125 and 0.875. \<open>accuracy_fraction\<close>
  is the fraction of equal entries. \<open>two_pass_std\<close> is the computation of pandas'
  \<^verbatim>\<open>nanvar\<close> (the mean, the squared deviations from it, their mean, the root), every
  operation rounded and the sums accumulated from left to right, which is numpy's order
  below eight rows. Any other choice would do: the theorems quantify over the library and
  the model.
\<close>

definition accuracy_fraction :: "scalar list \<Rightarrow> scalar list \<Rightarrow> error + pyfloat" where
  "accuracy_fraction y_true y_pred =
     (if length y_true \<noteq> length y_pred then Inl ValueError
      else Inr (proportion (map (\<lambda>(a, b). a = b) (zip y_true y_pred))))"

definition fsum :: "real list \<Rightarrow> real" where
  "fsum xs = foldl (\<lambda>acc x. round64 (acc + x)) 0 xs"

definition two_pass_std :: "real list \<Rightarrow> pyfloat" where
  "two_pass_std xs =
     (if xs = [] then NaN
      else let count = real (length xs);
               avg = round64 (fsum xs / count);
               sqr = map (\<lambda>v. round64 ((round64 (avg - v))\<^sup>2)) xs;
               result = round64 (fsum sqr / count)
           in Fin (round64 (sqrt result)))"

definition counter_library :: "nat library" where
  "counter_library =
     \<lparr>default_rng = (\<lambda>seed. seed),
      rng_normal = (\<lambda>g scale n k. (\<lambda>i j. (case scale ! j of Fin s \<Rightarrow> s | NaN \<Rightarrow> 0), Suc g)),
      rng_random = (\<lambda>g n. (\<lambda>i. if even (g + i) then 1/8 else 7/8, Suc g)),
      accuracy_score = accuracy_fraction,
      std = two_pass_std\<rparr>"

text \<open>
  A second environment, in which the normal draw from the same generator state differs: it
  is twice what the counter library draws.
\<close>

definition doubling_library :: "nat library" where
  "doubling_library =
     counter_library\<lparr>rng_normal :=
       (\<lambda>g scale n k. (\<lambda>i j. (case scale ! j of Fin s \<Rightarrow> 2 * s | NaN \<Rightarrow> 0), Suc g))\<rparr>"

text \<open>A model that accepts every table, also an empty one, and answers the same for every row.\<close>

definition constant_model :: model where
  "constant_model =
     \<lparr>predict = (\<lambda>features. Inr (replicate (nrows features) (Str ''yes''))),
      predict_proba = (\<lambda>features. Inr (replicate (nrows features) [9/10, 1/10]))\<rparr>"

subsection \<open>The policies, as the specification words them\<close>

text \<open>Zero issues give low, exactly one gives medium, two or more give high.\<close>

definition severity_policy :: "nat \<Rightarrow> string" where
  "severity_policy n = (if n = 0 then ''low'' else if n = 1 then ''medium'' else ''high'')"

text \<open>
  The quartiles of a column, by ranks. Among the \<open>n\<close> sorted values \<open>s\<^sub>0 \<le> \<dots> \<le> s\<^sub>n\<^sub>-\<^sub>1\<close>
  the \<open>k\<close>-th quartile sits at rank \<open>k \<sqdot> (n - 1) / 4\<close>: with \<open>k \<sqdot> (n - 1) = 4 \<sqdot> i + f\<close>
  and \<open>f < 4\<close> it is the value \<open>s\<^sub>i\<close> when \<open>f = 0\<close>, and otherwise lies \<open>f\<close> quarters of
  the way from \<open>s\<^sub>i\<close> to \<open>s\<^sub>i\<^sub>+\<^sub>1\<close>. The definition is in integer arithmetic and does not
  use \<open>quantile\<close>.
\<close>

definition quartile :: "nat \<Rightarrow> real list \<Rightarrow> real" where
  "quartile k xs =
     (let s = sort xs;
          i = (k * (length xs - 1)) div 4;
          f = (k * (length xs - 1)) mod 4
      in if f = 0 then round64 (s ! i) else lerp (s ! i) (s ! (i + 1)) (real f / 4))"


text \<open>The issues that a RiskScore of the scanner lists in its details.\<close>

definition issues_of :: "RiskScore \<Rightarrow> json list" where
  "issues_of r = (case map_of (details r) (Str ''issues'') of Some (JList is) \<Rightarrow> is | _ \<Rightarrow> [])"

text \<open>The values of a numeric column of a frame.\<close>

definition numeric_series :: "frame \<Rightarrow> string \<Rightarrow> real list" where
  "numeric_series df c = (case map_of (columns df) c of Some (NumCol xs) \<Rightarrow> xs | _ \<Rightarrow> [])"

text \<open>
  The noise scale of one column as the specification words it, \<open>max (std \<sqdot> epsilon) 0.001\<close>,
  the product and the literal as doubles.
\<close>

definition spec_noise_scale :: "real \<Rightarrow> real \<Rightarrow> real" where
  "spec_noise_scale sd epsilon = max (round64 (sd * epsilon)) (round64 (1/1000))"

section \<open>Properties of double arithmetic\<close>

lemma round64_0 [simp]: "round64 0 = 0"
  by (simp add: round64_def)

lemma round_half_even_of_int [simp]: "round_half_even (of_int z) = z"
  by (simp add: round_half_even_def)



text \<open>The binary exponent of a number, from the two powers of two that enclose it.\<close>

lemma expo_eqI:
  assumes "2 powi k \<le> \<bar>x\<bar>" and "\<bar>x\<bar> < 2 powi (k + 1)"
  shows "expo x = k"
proof -
  have "0 < (2::real) powi k" by simp
  with assms(1) have pos: "0 < \<bar>x\<bar>" by linarith
  have "(2::real) powr real_of_int k = 2 powi k"
    by (simp add: powr_real_of_int')
  moreover have "(2::real) powr (real_of_int k + 1) = 2 powi (k + 1)"
    using powr_real_of_int' [of "2::real" "k + 1"] by simp
  ultimately have "2 powr real_of_int k \<le> \<bar>x\<bar> \<and> \<bar>x\<bar> < 2 powr (real_of_int k + 1)"
    using assms by simp
  with floor_log_eq_powr_iff [of "\<bar>x\<bar>" 2 k] pos show ?thesis
    by (simp add: expo_def)
qed

lemma expo_less:
  assumes "x \<noteq> 0" and "\<bar>x\<bar> < 2 powi k"
  shows "expo x < k"
proof -
  have pos: "0 < \<bar>x\<bar>" using assms(1) by simp
  have "(2::real) powr real_of_int k = 2 powi k"
    by (simp add: powr_real_of_int')
  with assms(2) have "\<bar>x\<bar> < 2 powr real_of_int k" by simp
  then have "log 2 \<bar>x\<bar> < real_of_int k"
    using pos by (simp add: log_less_iff)
  then show ?thesis
    by (simp add: expo_def floor_less_iff)
qed

text \<open>
  How a number in the normal range is rounded, once its binary exponent \<open>k\<close> is known: to
  a multiple of \<open>2\<^sup>k\<^sup>-\<^sup>5\<^sup>2\<close>.
\<close>

lemma round64_normal:
  assumes "2 powi k \<le> \<bar>x\<bar>" and "\<bar>x\<bar> < 2 powi (k + 1)" and "- 1022 \<le> k"
  shows "round64 x = of_int (round_half_even (x / 2 powi (k - 52))) * 2 powi (k - 52)"
proof -
  have "0 < (2::real) powi k" by simp
  with assms(1) have "0 < \<bar>x\<bar>" by linarith
  then have x0: "x \<noteq> 0" by simp
  have "ulp_exp x = k - 52"
    using assms(3) by (simp add: ulp_exp_def expo_eqI [OF assms(1,2)])
  with x0 show ?thesis by (simp add: round64_def)
qed

text \<open>
  The doubles: an integer of fewer than 54 bits times a power of two that is not below the
  smallest subnormal is left fixed by the rounding.
\<close>

lemma round64_dyadic:
  assumes "\<bar>m\<bar> < 2 ^ 53" and "- 1074 \<le> e"
  shows "round64 (of_int m * 2 powi e) = of_int m * 2 powi e"
proof (cases "m = 0")
  case True
  then show ?thesis by simp
next
  case False
  define x where "x = real_of_int m * 2 powi e"
  define u where "u = ulp_exp x"
  have x0: "x \<noteq> 0" using False by (simp add: x_def)
  have "\<bar>x\<bar> = real_of_int \<bar>m\<bar> * 2 powi e"
    by (simp add: x_def abs_mult)
  also have "\<dots> < 2 ^ 53 * 2 powi e"
  proof -
    have "real_of_int \<bar>m\<bar> < real_of_int (2 ^ 53)"
      using assms(1) by (simp only: of_int_less_iff)
    then have "real_of_int \<bar>m\<bar> < 2 ^ 53" by simp
    then show ?thesis by (simp add: mult_strict_right_mono)
  qed
  also have "\<dots> = 2 powi (53 + e)"
    by (simp add: power_int_add)
  finally have "expo x < 53 + e" by (rule expo_less [OF x0])
  then have ue: "u \<le> e" using assms(2) by (simp add: u_def ulp_exp_def)
  define d where "d = nat (e - u)"
  have e: "e = u + int d" using ue by (simp add: d_def)
  have p: "(2::real) powi e = 2 ^ d * 2 powi u"
    by (simp add: e power_int_add)
  have q: "x / 2 powi u = of_int (m * 2 ^ d)"
    by (simp add: x_def p)
  have "round_half_even (x / 2 powi u) = m * 2 ^ d"
    by (simp only: q round_half_even_of_int)
  then have "round64 x = of_int (m * 2 ^ d) * 2 powi u"
    by (simp only: round64_def x0 if_False u_def [symmetric])
  also have "\<dots> = x"
    by (simp add: x_def p)
  finally show ?thesis by (simp add: x_def)
qed

text \<open>The rounded value is a double: rounding a second time changes nothing.\<close>

lemma expo_upper:
  assumes "x \<noteq> 0"
  shows "\<bar>x\<bar> < 2 powi (expo x + 1)"
proof -
  have pos: "0 < \<bar>x\<bar>" using assms by simp
  have "log 2 \<bar>x\<bar> < real_of_int (expo x + 1)"
    unfolding expo_def by linarith
  then have "2 powr log 2 \<bar>x\<bar> < 2 powr real_of_int (expo x + 1)"
    by simp
  moreover have "2 powr log 2 \<bar>x\<bar> = \<bar>x\<bar>"
    using pos by simp
  moreover have "(2::real) powr real_of_int (expo x + 1) = 2 powi (expo x + 1)"
    by (rule powr_real_of_int') simp_all
  ultimately show ?thesis by simp
qed

lemma round_half_even_bound:
  assumes "\<bar>y\<bar> < of_int b"
  shows "\<bar>round_half_even y\<bar> \<le> b"
proof -
  from assms have "y < of_int b" and "- of_int b < y" by linarith+
  then have "\<lfloor>y\<rfloor> < b" and "- b \<le> \<lfloor>y\<rfloor>"
    by (simp_all add: floor_less_iff le_floor_iff)
  moreover have "round_half_even y = \<lfloor>y\<rfloor> \<or> round_half_even y = \<lfloor>y\<rfloor> + 1"
    by (simp add: round_half_even_def Let_def)
  ultimately show ?thesis by linarith
qed

lemma round64_idem [simp]: "round64 (round64 y) = round64 y"
proof (cases "y = 0")
  case True
  then show ?thesis by simp
next
  case False
  define u where "u = ulp_exp y"
  define n where "n = round_half_even (y / 2 powi u)"
  have r: "round64 y = of_int n * 2 powi u"
    using False by (simp add: round64_def u_def n_def)
  have u1: "- 1074 \<le> u" and u2: "expo y + 1 \<le> u + 53"
    by (simp_all add: u_def ulp_exp_def)
  have "\<bar>y\<bar> < 2 powi (expo y + 1)" by (rule expo_upper [OF False])
  also have "\<dots> \<le> 2 powi (u + 53)"
    using u2 by (simp add: power_int_increasing)
  also have "\<dots> = 2 ^ 53 * 2 powi u"
    by (simp add: power_int_add)
  finally have "\<bar>y\<bar> / 2 powi u < 2 ^ 53"
    by (simp add: field_simps)
  then have "\<bar>y / 2 powi u\<bar> < of_int (2 ^ 53)"
    by (simp add: abs_divide)
  then have nb: "\<bar>n\<bar> \<le> 2 ^ 53"
    unfolding n_def by (rule round_half_even_bound)
  show ?thesis
  proof (cases "\<bar>n\<bar> < 2 ^ 53")
    case True
    from round64_dyadic [OF True u1] show ?thesis by (simp add: r)
  next
    case False
    with nb have "n = 2 ^ 53 \<or> n = - (2 ^ 53)" by linarith
    then have "real_of_int n * 2 powi u = 2 powi (u + 53) \<or>
               real_of_int n * 2 powi u = - (2 powi (u + 53))"
      by (auto simp: power_int_add)
    moreover have "round64 (2 powi (u + 53)) = 2 powi (u + 53)"
      using round64_dyadic [of 1 "u + 53"] u1 by simp
    moreover have "round64 (- (2 powi (u + 53))) = - (2 powi (u + 53))"
      using round64_dyadic [of "- 1" "u + 53"] u1 by simp
    ultimately show ?thesis by (auto simp: r)
  qed
qed

lemma round64_of_int: "\<bar>m\<bar> < 2 ^ 53 \<Longrightarrow> round64 (of_int m) = of_int m"
  using round64_dyadic [of m 0] by simp

lemma round64_1 [simp]: "round64 1 = 1"
  using round64_of_int [of 1] by simp

lemma round64_numeral [simp]:
  "(numeral n :: int) < 9007199254740992 \<Longrightarrow> round64 (numeral n) = numeral n"
  using round64_of_int [of "numeral n"] by simp

lemma round64_neg_numeral [simp]:
  "(numeral n :: int) < 9007199254740992 \<Longrightarrow> round64 (- numeral n) = - numeral n"
  using round64_of_int [of "- numeral n"] by simp

lemma fsub_NaN_left [simp]: "fsub NaN b = NaN"
  by (cases b) simp_all

lemma fsub_NaN_right [simp]: "fsub a NaN = NaN"
  by (cases a) simp_all

lemma fgt_NaN_left [simp]: "fgt NaN b = False"
  by (cases b) simp_all

text \<open>The decimal literals of the source and of the examples below, as doubles.\<close>

lemma double_0_001: "round64 (1/1000) = 1152921504606847 / 1152921504606846976"
  by (simp add: round64_normal [of "-10"] round_half_even_def)

lemma double_0_05: "round64 (1/20) = 3602879701896397 / 72057594037927936"
  by (simp add: round64_normal [of "-5"] round_half_even_def)

lemma double_0_08: "round64 (2/25) = 5764607523034235 / 72057594037927936"
  by (simp add: round64_normal [of "-4"] round_half_even_def)

lemma double_0_1: "round64 (1/10) = 3602879701896397 / 36028797018963968"
  by (simp add: round64_normal [of "-4"] round_half_even_def)

lemma double_0_15: "round64 (3/20) = 5404319552844595 / 36028797018963968"
  by (simp add: round64_normal [of "-3"] round_half_even_def)

lemma double_0_2: "round64 (1/5) = 3602879701896397 / 18014398509481984"
  by (simp add: round64_normal [of "-3"] round_half_even_def)

lemma double_0_3: "round64 (3/10) = 5404319552844595 / 18014398509481984"
  by (simp add: round64_normal [of "-2"] round_half_even_def)

lemma double_0_8: "round64 (4/5) = 3602879701896397 / 4503599627370496"
  by (simp add: round64_normal [of "-1"] round_half_even_def)

lemma double_0_9: "round64 (9/10) = 8106479329266893 / 9007199254740992"
  by (simp add: round64_normal [of "-1"] round_half_even_def)

section \<open>Properties of the report assembler\<close>

lemma getitem_to_dict_level: "getitem (to_dict r) (Str ''level'') = Inr (JStr (level r))"
  by (simp add: getitem_def to_dict_def)

lemma getitem_to_dict_name: "getitem (to_dict r) (Str ''name'') = Inr (JStr (name r))"
  by (simp add: getitem_def to_dict_def)

lemma entry_severity_known:
  "known_level (level r) \<Longrightarrow> entry_severity (to_dict r) = Inr (level_ordinal (level r))"
  unfolding entry_severity_def getitem_to_dict_level
  by (auto simp: known_level_def getitem_def severity_map_def level_ordinal_def)

lemma entry_severity_unknown:
  "\<not> known_level (level r) \<Longrightarrow> entry_severity (to_dict r) = Inl KeyError"
  unfolding entry_severity_def getitem_to_dict_level
  by (auto simp: known_level_def getitem_def severity_map_def)

lemma entry_names_to_dict: "entry_names (map to_dict rs) = Inr (map (\<lambda>r. JStr (name r)) rs)"
  by (induction rs) (simp_all add: getitem_to_dict_name)

lemma max_severity_known:
  "\<forall>r \<in> set rs. known_level (level r) \<Longrightarrow>
   max_severity acc (map to_dict rs) =
     Inr (case acc of
            None \<Rightarrow> Max (insert 0 (level_ordinal ` level ` set rs))
          | Some m \<Rightarrow> Max (insert m (level_ordinal ` level ` set rs)))"
proof (induction rs arbitrary: acc)
  case Nil
  then show ?case by (simp split: option.splits)
next
  case (Cons r rs)
  have fin: "finite (level_ordinal ` level ` set rs)" by simp
  from Cons.prems have k: "known_level (level r)" and ks: "\<forall>r \<in> set rs. known_level (level r)"
    by simp_all
  show ?case
  proof (cases acc)
    case None
    have "Max (insert (level_ordinal (level r)) (level_ordinal ` level ` set rs)) =
          Max (insert 0 (insert (level_ordinal (level r)) (level_ordinal ` level ` set rs)))"
      using fin by (simp add: max_def)
    with None show ?thesis
      by (simp add: entry_severity_known [OF k] Cons.IH [OF ks])
  next
    case (Some m)
    have "Max (insert (if m < level_ordinal (level r) then level_ordinal (level r) else m)
                 (level_ordinal ` level ` set rs)) =
          Max (insert m (insert (level_ordinal (level r)) (level_ordinal ` level ` set rs)))"
      using fin by (cases "level_ordinal ` level ` set rs = {}") (auto simp: max_def)
    with Some show ?thesis
      by (simp add: entry_severity_known [OF k] Cons.IH [OF ks])
  qed
qed

lemma max_severity_unknown:
  "\<exists>r \<in> set rs. \<not> known_level (level r) \<Longrightarrow> max_severity acc (map to_dict rs) = Inl KeyError"
proof (induction rs arbitrary: acc)
  case Nil
  then show ?case by simp
next
  case (Cons r rs)
  show ?case
  proof (cases "known_level (level r)")
    case True
    with Cons.prems have "\<exists>r \<in> set rs. \<not> known_level (level r)" by auto
    then show ?thesis
      by (simp add: entry_severity_known [OF True] Cons.IH)
  next
    case False
    then show ?thesis by (simp add: entry_severity_unknown)
  qed
qed

lemma level_ordinal_le_2: "level_ordinal l \<le> 2"
  by (simp add: level_ordinal_def)

lemma get_default_reverse_map: "n \<le> 2 \<Longrightarrow> get_default reverse_map n ''low'' = ordinal_level n"
proof -
  assume "n \<le> 2"
  then have "n = 0 \<or> n = 1 \<or> n = 2" by arith
  then show ?thesis
    by (auto simp: get_default_def reverse_map_def severity_map_def ordinal_level_def)
qed

lemma Max_ordinals_le_2: "Max (insert 0 (level_ordinal ` S)) \<le> 2" if "finite S"
  using that by (simp add: level_ordinal_le_2)

lemma spec_aggregate_level_Nil: "spec_aggregate_level [] = ''low''"
  by (simp add: spec_aggregate_level_def ordinal_level_def)

lemma assemble_known:
  assumes "\<forall>r \<in> set risks. known_level (level r)"
  shows "assemble_security_report fs manifest risks output_dir =
     (write_text (mkdir_parents fs output_dir) (output_dir @ [''mlsecops_security_report.json''])
        (JDict [(Str ''manifest'', manifest),
                (Str ''risks'', JList (map JDict (map to_dict risks))),
                (Str ''aggregate_risk_level'', JStr (spec_aggregate_level (map level risks))),
                (Str ''owasp_mappings'', JList (map (\<lambda>r. JStr (name r)) risks)),
                (Str ''mitre_atlas_focus'',
                   JList [JStr ''ML Attack Staging'', JStr ''ML Model Access'',
                          JStr ''ML Attack Execution''])]),
      Inr \<lparr>report = [(Str ''manifest'', manifest),
                (Str ''risks'', JList (map JDict (map to_dict risks))),
                (Str ''aggregate_risk_level'', JStr (spec_aggregate_level (map level risks))),
                (Str ''owasp_mappings'', JList (map (\<lambda>r. JStr (name r)) risks)),
                (Str ''mitre_atlas_focus'',
                   JList [JStr ''ML Attack Staging'', JStr ''ML Model Access'',
                          JStr ''ML Attack Execution''])],
            path = output_dir @ [''mlsecops_security_report.json'']\<rparr>)"
proof -
  have le: "Max (insert 0 (level_ordinal ` level ` set risks)) \<le> 2"
    by (rule Max_ordinals_le_2) simp
  show ?thesis
    unfolding assemble_security_report_def Let_def
    by (simp add: max_severity_known [OF assms] entry_names_to_dict
        get_default_reverse_map [OF le] spec_aggregate_level_def)
qed

text \<open>
  Claim C1. When every supplied RiskScore has one of the levels low, medium, high, the
  call returns a report whose \<open>aggregate_risk_level\<close> is the maximum of the levels under
  the ordinal mapping low = 0 < medium = 1 < high = 2, and low for the empty collection.
  The right-hand side is a function of the list of \<open>level\<close> fields alone, so neither the
  \<open>details\<close> nor any other field of a RiskScore has an influence.
\<close>

theorem aggregate_risk_level_is_maximum:
  assumes "\<forall>r \<in> set risks. known_level (level r)"
  shows "\<exists>fs' res. assemble_security_report fs manifest risks output_dir = (fs', Inr res) \<and>
           getitem (report res) (Str ''aggregate_risk_level'') =
             Inr (JStr (spec_aggregate_level (map level risks))) \<and>
           (risks = [] \<longrightarrow> getitem (report res) (Str ''aggregate_risk_level'') = Inr (JStr ''low''))"
  using spec_aggregate_level_Nil
  by (simp add: assemble_known [OF assms] getitem_def)

theorem aggregate_risk_level_is_maximum_witness:
  "list_all (\<lambda>r. known_level (level r))
      [\<lparr>name = ''a'', level = ''low'', details = [], recommendations = []\<rparr>,
       \<lparr>name = ''b'', level = ''medium'', details = [(Str ''x'', JStr ''high'')], recommendations = []\<rparr>,
       \<lparr>name = ''c'', level = ''low'', details = [], recommendations = []\<rparr>] \<and>
   (\<exists>fs' res. assemble_security_report \<lparr>dirs = {}, files = Map.empty\<rparr> (JDict [])
        [\<lparr>name = ''a'', level = ''low'', details = [], recommendations = []\<rparr>,
         \<lparr>name = ''b'', level = ''medium'', details = [(Str ''x'', JStr ''high'')], recommendations = []\<rparr>,
         \<lparr>name = ''c'', level = ''low'', details = [], recommendations = []\<rparr>] [''out''] = (fs', Inr res) \<and>
      getitem (report res) (Str ''aggregate_risk_level'') = Inr (JStr ''medium''))"
proof -
  have h: "\<forall>r \<in> set [\<lparr>name = ''a'', level = ''low'', details = [], recommendations = []\<rparr>,
                 \<lparr>name = ''b'', level = ''medium'', details = [(Str ''x'', JStr ''high'')], recommendations = []\<rparr>,
                 \<lparr>name = ''c'', level = ''low'', details = [], recommendations = []\<rparr>]. known_level (level r)"
    by (simp add: known_level_def)
  have s: "spec_aggregate_level [''low'', ''medium'', ''low''] = ''medium''"
    by (simp add: spec_aggregate_level_def level_ordinal_def ordinal_level_def)
  show ?thesis
    using h aggregate_risk_level_is_maximum [OF h, of "\<lparr>dirs = {}, files = Map.empty\<rparr>" "JDict []" "[''out'']"] s
    by simp
qed

lemma assemble_unknown:
  assumes "\<exists>r \<in> set risks. \<not> known_level (level r)"
  shows "assemble_security_report fs manifest risks output_dir =
           (mkdir_parents fs output_dir, Inl KeyError)"
  unfolding assemble_security_report_def Let_def
  by (simp add: max_severity_unknown [OF assms])

text \<open>
  Claim C10. The severity lookup is defined on the three literal levels only. As soon as
  one supplied RiskScore has another level, the call raises KeyError, returns no report and
  leaves the files untouched (the lookup comes before the write); when all levels are
  among the three literals the call returns a report, so the error branch is not reached.
\<close>

theorem unknown_level_raises_KeyError:
  "(if \<forall>r \<in> set risks. known_level (level r)
    then \<exists>res. snd (assemble_security_report fs manifest risks output_dir) = Inr res
    else snd (assemble_security_report fs manifest risks output_dir) = Inl KeyError \<and>
         files (fst (assemble_security_report fs manifest risks output_dir)) = files fs)"
proof (cases "\<forall>r \<in> set risks. known_level (level r)")
  case True
  then show ?thesis by (simp add: assemble_known)
next
  case False
  then have "\<exists>r \<in> set risks. \<not> known_level (level r)" by blast
  from assemble_unknown [OF this] False show ?thesis
    by (simp add: mkdir_parents_def)
qed

theorem unknown_level_raises_KeyError_witness:
  "list_ex (\<lambda>r. \<not> known_level (level r))
      [\<lparr>name = ''a'', level = ''low'', details = [], recommendations = []\<rparr>,
       \<lparr>name = ''b'', level = ''critical'', details = [], recommendations = []\<rparr>] \<and>
   snd (assemble_security_report \<lparr>dirs = {}, files = Map.empty\<rparr> (JDict [])
          [\<lparr>name = ''a'', level = ''low'', details = [], recommendations = []\<rparr>,
           \<lparr>name = ''b'', level = ''critical'', details = [], recommendations = []\<rparr>] [''out'']) = Inl KeyError \<and>
   files (fst (assemble_security_report \<lparr>dirs = {}, files = Map.empty\<rparr> (JDict [])
          [\<lparr>name = ''a'', level = ''low'', details = [], recommendations = []\<rparr>,
           \<lparr>name = ''b'', level = ''critical'', details = [], recommendations = []\<rparr>] [''out''])) = Map.empty \<and>
   list_all (\<lambda>r. known_level (level r))
      [\<lparr>name = ''a'', level = ''high'', details = [], recommendations = []\<rparr>] \<and>
   (\<exists>res. snd (assemble_security_report \<lparr>dirs = {}, files = Map.empty\<rparr> (JDict [])
          [\<lparr>name = ''a'', level = ''high'', details = [], recommendations = []\<rparr>] [''out'']) = Inr res)"
proof -
  have bad: "\<not> (\<forall>r \<in> set [\<lparr>name = ''a'', level = ''low'', details = [], recommendations = []\<rparr>,
                 \<lparr>name = ''b'', level = ''critical'', details = [], recommendations = []\<rparr>]. known_level (level r))"
    by (simp add: known_level_def)
  have good: "\<forall>r \<in> set [\<lparr>name = ''a'', level = ''high'', details = [], recommendations = []\<rparr>]. known_level (level r)"
    by (simp add: known_level_def)
  show ?thesis
    using bad good
      unknown_level_raises_KeyError [of "[\<lparr>name = ''a'', level = ''low'', details = [], recommendations = []\<rparr>,
                 \<lparr>name = ''b'', level = ''critical'', details = [], recommendations = []\<rparr>]"
          "\<lparr>dirs = {}, files = Map.empty\<rparr>" "JDict []" "[''out'']"]
      unknown_level_raises_KeyError [of "[\<lparr>name = ''a'', level = ''high'', details = [], recommendations = []\<rparr>]"
          "\<lparr>dirs = {}, files = Map.empty\<rparr>" "JDict []" "[''out'']"]
    by simp
qed

section \<open>Properties of the poisoning scanner\<close>

lemma value_counts_not_Nil: "xs \<noteq> [] \<Longrightarrow> value_counts xs \<noteq> []"
proof -
  assume "xs \<noteq> []"
  then have "rev (remdups (rev xs)) \<noteq> []" by simp
  then have "length (value_counts xs) \<noteq> 0"
    unfolding value_counts_def by simp
  then show ?thesis by auto
qed

lemma max_of_not_Nil: "xs \<noteq> [] \<Longrightarrow> \<exists>m. max_of xs = Inr m"
  by (cases xs) (simp_all add: max_of_def)

lemma max_of_Nil: "max_of [] = Inl ValueError"
  by (simp add: max_of_def)

lemma count_outliers_numeric:
  "\<forall>c \<in> set cs. \<exists>xs. map_of (columns df) c = Some (NumCol xs) \<Longrightarrow>
   count_outliers df acc cs =
     Inr (acc + sum_list (map (\<lambda>c. count_true (outlier_mask (numeric_series df c))) cs))"
proof (induction cs arbitrary: acc)
  case Nil
  then show ?case by simp
next
  case (Cons c cs)
  then obtain xs where xs: "map_of (columns df) c = Some (NumCol xs)" by auto
  from Cons.prems have rest: "\<forall>c \<in> set cs. \<exists>xs. map_of (columns df) c = Some (NumCol xs)" by simp
  show ?case
    by (simp add: getitem_def xs numeric_series_def Cons.IH [OF rest])
qed


lemma scan_Inr:
  assumes "getitem (columns df) label_column = Inr labels"
    and "max_of (map snd (value_counts (cells labels))) = Inr majority"
    and "count_outliers df 0 numeric_columns = Inr outlier_rows"
  shows "\<exists>r. scan_for_data_poisoning df label_column numeric_columns = Inr r \<and>
           length (issues_of r) =
              (if count_true (duplicated df) \<noteq> 0 then 1 else 0) +
              (if majority > 0.75 then 1 else 0) +
              (if outlier_rows \<noteq> 0 then 1 else 0) \<and>
           level r = severity_policy (length (issues_of r)) \<and>
           (JList [JInt (int outlier_rows), JStr '' numeric rows outside 3*IQR boundaries.'']
              \<in> set (issues_of r) \<longleftrightarrow> outlier_rows \<noteq> 0)"
  using assms
  by (simp add: scan_for_data_poisoning_def Let_def severity_policy_def issues_of_def)



text \<open>
  The ranks of the quartiles are inside the column: for \<open>k \<le> 3\<close> and \<open>n\<close> values, rank
  \<open>k \<sqdot> (n - 1) div 4\<close> is below \<open>n\<close>, and so is the next rank when the division leaves a
  remainder.
\<close>

lemma rank_in_range:
  assumes "0 < n" and "k \<le> (3::nat)"
  shows "(k * (n - 1)) div 4 < n"
    and "(k * (n - 1)) mod 4 \<noteq> 0 \<Longrightarrow> (k * (n - 1)) div 4 + 1 \<le> n - 1"
proof -
  define r where "r = k * (n - 1)"
  have r: "r \<le> 3 * (n - 1)"
    unfolding r_def using assms(2) by (rule mult_le_mono1)
  show "(k * (n - 1)) div 4 < n"
    using r assms(1) unfolding r_def [symmetric] by presburger
  show "(k * (n - 1)) div 4 + 1 \<le> n - 1" if "(k * (n - 1)) mod 4 \<noteq> 0"
    using r assms(1) that unfolding r_def [symmetric] by presburger
qed

text \<open>
  \<^verbatim>\<open>series.quantile([0.25, 0.75])\<close> returns the quartiles: the floor of the virtual index
  and its fractional part are the quotient and the remainder of the rank.
\<close>

lemma quantile_quartile:
  assumes "xs \<noteq> []" and "k \<le> 3"
  shows "quantile xs (real k / 4) = Fin (quartile k xs)"
proof -
  define r where "r = k * (length xs - 1)"
  have n: "0 < length xs" using assms(1) by simp
  have vi: "real k / 4 * real (length xs - 1) = real r / 4"
    by (simp add: r_def)
  have fl: "nat \<lfloor>real r / 4\<rfloor> = r div 4"
    using floor_divide_of_nat_eq [of r 4, where ?'a = real] by simp
  have "real r = real (4 * (r div 4) + r mod 4)" by simp
  then have gam: "real r / 4 - real (r div 4) = real (r mod 4) / 4"
    by (simp only: of_nat_add of_nat_mult) (simp add: field_simps)
  show ?thesis
  proof (cases "r mod 4 = 0")
    case True
    with assms(1) show ?thesis
      unfolding quantile_def quartile_def Let_def vi fl gam r_def [symmetric]
      by (simp add: lerp_def)
  next
    case False
    from rank_in_range(2) [OF n assms(2)] False
    have "min (r div 4 + 1) (length xs - 1) = r div 4 + 1"
      by (simp add: r_def)
    with assms(1) False show ?thesis
      unfolding quantile_def quartile_def Let_def vi fl gam r_def [symmetric]
      by simp
  qed
qed

lemma quantile_first_quartile: "xs \<noteq> [] \<Longrightarrow> quantile xs (1/4) = Fin (quartile 1 xs)"
  using quantile_quartile [of xs 1] by simp

lemma quantile_third_quartile: "xs \<noteq> [] \<Longrightarrow> quantile xs (3/4) = Fin (quartile 3 xs)"
  using quantile_quartile [of xs 3] by simp






text \<open>
  Claim C2, as amended. For every well-formed split that has at least one row, whose label
  column exists and whose numeric columns exist and hold numbers, the scanner returns a
  RiskScore; the number of issues it lists is the number of heuristics that fired
  (duplicated rows, a majority class frequency above 0.75, numeric outliers), and the level
  is low for no issue, medium for exactly one, high for two or more.
\<close>

theorem poisoning_level_by_issue_count:
  assumes "wf_frame df" and "nrows df \<noteq> 0"
    and "map_of (columns df) label_column = Some labels"
    and "\<forall>c \<in> set numeric_columns. \<exists>xs. map_of (columns df) c = Some (NumCol xs)"
  shows "\<exists>r majority outlier_rows.
           scan_for_data_poisoning df label_column numeric_columns = Inr r \<and>
           max_of (map snd (value_counts (cells labels))) = Inr majority \<and>
           count_outliers df 0 numeric_columns = Inr outlier_rows \<and>
           length (issues_of r) =
              (if count_true (duplicated df) \<noteq> 0 then 1 else 0) +
              (if majority > 0.75 then 1 else 0) +
              (if outlier_rows \<noteq> 0 then 1 else 0) \<and>
           level r = severity_policy (length (issues_of r))"
proof -
  from assms(3) have "(label_column, labels) \<in> set (columns df)" by (rule map_of_SomeD)
  with assms(1) have "length (cells labels) = nrows df"
    by (auto simp: wf_frame_def list_all_iff)
  with assms(2) have "cells labels \<noteq> []" by auto
  then have "map snd (value_counts (cells labels)) \<noteq> []"
    by (simp add: value_counts_not_Nil)
  from max_of_not_Nil [OF this] obtain majority
    where m: "max_of (map snd (value_counts (cells labels))) = Inr majority" by blast
  have g: "getitem (columns df) label_column = Inr labels"
    by (simp add: getitem_def assms(3))
  have k: "count_outliers df 0 numeric_columns =
      Inr (0 + sum_list (map (\<lambda>c. count_true (outlier_mask (numeric_series df c))) numeric_columns))"
    by (rule count_outliers_numeric [OF assms(4)])
  from scan_Inr [OF g m k] m k show ?thesis by blast
qed


theorem poisoning_level_by_issue_count_witness:
  "wf_frame \<lparr>nrows = 5, columns = [(''label'', StrCol [''y'', ''y'', ''y'', ''y'', ''n'']),
                                     (''x'', NumCol [1, 1, 1, 1, 7])]\<rparr> \<and>
   nrows \<lparr>nrows = 5, columns = [(''label'', StrCol [''y'', ''y'', ''y'', ''y'', ''n'']),
                                (''x'', NumCol [1, 1, 1, 1, 7])]\<rparr> \<noteq> 0 \<and>
   (\<exists>r. scan_for_data_poisoning
          \<lparr>nrows = 5, columns = [(''label'', StrCol [''y'', ''y'', ''y'', ''y'', ''n'']),
                                 (''x'', NumCol [1, 1, 1, 1, 7])]\<rparr> ''label'' [''x''] = Inr r \<and>
        length (issues_of r) = 3 \<and> level r = ''high'')"
proof -
  define df where "df = \<lparr>nrows = 5, columns = [(''label'', StrCol [''y'', ''y'', ''y'', ''y'', ''n'']),
                                     (''x'', NumCol [1, 1, 1, 1, 7])]\<rparr>"
  have h1: "wf_frame df" by (simp add: df_def wf_frame_def)
  have h2: "nrows df \<noteq> 0" by (simp add: df_def)
  have h3: "map_of (columns df) ''label'' = Some (StrCol [''y'', ''y'', ''y'', ''y'', ''n''])"
    by (simp add: df_def)
  have h4: "\<forall>c \<in> set [''x'']. \<exists>xs. map_of (columns df) c = Some (NumCol xs)"
    by (simp add: df_def)
  have d: "count_true (duplicated df) = 3"
    unfolding df_def by code_simp
  have m: "max_of (map snd (value_counts (cells (StrCol [''y'', ''y'', ''y'', ''y'', ''n''])))) = Inr (4/5)"
    by code_simp
  have k: "count_outliers df 0 [''x''] = Inr 1"
    by (simp add: df_def getitem_def outlier_mask_def quantile_def lerp_def count_true_def)
  from poisoning_level_by_issue_count [OF h1 h2 h3 h4] d m k
  have "\<exists>r. scan_for_data_poisoning df ''label'' [''x''] = Inr r \<and>
        length (issues_of r) = 3 \<and> level r = ''high''"
    by (auto simp: severity_policy_def)
  with h1 h2 show ?thesis unfolding df_def by blast
qed

text \<open>
  The claim as stated speaks of every split. On a split without rows the label frequencies
  are an empty dictionary and Python's \<open>max\<close> raises ValueError: no RiskScore is returned.
\<close>

theorem poisoning_empty_split_counterexample:
  "scan_for_data_poisoning \<lparr>nrows = 0, columns = [(''label'', StrCol [])]\<rparr> ''label'' [] =
     Inl ValueError"
  by (simp add: scan_for_data_poisoning_def getitem_def value_counts_def max_of_def)


text \<open>
  Quartiles between two ranks. Of the four values 1, 2, 3, 4 the first quartile lies three
  quarters of the way from 1 to 2 and the third a quarter of the way from 3 to 4; the
  bounds are -2.75 and 7.75 and none of the four values is an outlier.
\<close>

lemma quartiles_between_ranks:
  "quantile [4, 1, 3, 2] (1/4) = Fin (7/4) \<and> quantile [4, 1, 3, 2] (3/4) = Fin (13/4) \<and>
   quartile 1 [4, 1, 3, 2] = 7/4 \<and> quartile 3 [4, 1, 3, 2] = 13/4 \<and>
   outlier_mask [4, 1, 3, 2] = [False, False, False, False] \<and>
   fsub (Fin (7/4)) (fmul (Fin 3) (fsub (Fin (13/4)) (Fin (7/4)))) = Fin (- (11/4)) \<and>
   fadd (Fin (13/4)) (fmul (Fin 3) (fsub (Fin (13/4)) (Fin (7/4)))) = Fin (31/4)"
proof -
  have d: "round64 (1/4) = 1/4" "round64 (3/4) = 3/4" "round64 (3/2) = 3/2"
    "round64 (9/2) = 9/2" "round64 (7/4) = 7/4" "round64 (13/4) = 13/4"
    "round64 (31/4) = 31/4" "round64 (- (11/4)) = - (11/4)"
    using round64_dyadic [of 1 "-2"] round64_dyadic [of 3 "-2"] round64_dyadic [of 3 "-1"]
      round64_dyadic [of 9 "-1"] round64_dyadic [of 7 "-2"] round64_dyadic [of 13 "-2"]
      round64_dyadic [of 31 "-2"] round64_dyadic [of "-11" "-2"]
    by simp_all
  have q1: "quantile [4, 1, 3, 2] (1/4) = Fin (7/4)"
    by (simp add: quantile_def lerp_def d)
  have q3: "quantile [4, 1, 3, 2] (3/4) = Fin (13/4)"
    by (simp add: quantile_def lerp_def d)
  have "[4, 1, 3, 2] \<noteq> ([] :: real list)" by simp
  from quantile_first_quartile [OF this] quantile_third_quartile [OF this] q1 q3
  have q: "quartile 1 [4, 1, 3, 2] = 7/4 \<and> quartile 3 [4, 1, 3, 2] = 13/4" by simp
  have m: "outlier_mask [4, 1, 3, 2] = [False, False, False, False]"
    unfolding outlier_mask_def Let_def q1 q3 by (simp add: d)
  from q1 q3 q m show ?thesis by (simp add: d)
qed


section \<open>Properties of the membership-inference assessor\<close>

lemma drop_column_nrows: "drop_column df c = Inr f \<Longrightarrow> nrows f = nrows df"
  by (auto simp: drop_column_def split: option.splits)

lemma row_max_length: "row_max p = Inr c \<Longrightarrow> length c = length p"
  by (induction p arbitrary: c) (auto split: sum.splits)

lemma row_max_total: "[] \<notin> set p \<Longrightarrow> \<exists>c. row_max p = Inr c"
proof (induction p)
  case Nil
  then show ?case by simp
next
  case (Cons r p)
  then have "r \<noteq> []" by auto
  from max_of_not_Nil [OF this] obtain m where "max_of r = Inr m" ..
  moreover from Cons obtain c where "row_max p = Inr c" by auto
  ultimately show ?case by simp
qed


lemma membership_Inr:
  assumes "drop_column train_df label_column = Inr train_features"
    and "drop_column test_df label_column = Inr test_features"
    and "predict_proba model train_features = Inr train_proba"
    and "row_max train_proba = Inr train_conf"
    and "predict_proba model test_features = Inr test_proba"
    and "row_max test_proba = Inr test_conf"
  shows "\<exists>r. evaluate_membership_inference_risk model train_df test_df label_column = Inr r \<and>
           getitem (details r) (Str ''confidence_gap'') =
             Inr (JFloat (fsub (mean train_conf) (mean test_conf))) \<and>
           level r = (if fgt (fsub (mean train_conf) (mean test_conf)) (Fin (round64 (15/100))) then ''high''
                      else if fgt (fsub (mean train_conf) (mean test_conf)) (Fin (round64 (8/100))) then ''medium''
                      else ''low'')"
  using assms
  by (simp add: evaluate_membership_inference_risk_def Let_def getitem_def)



text \<open>
  Claim C3, as amended. The assessor has no emptiness check and no exception of its own for
  it. With a model that returns one non-empty probability row per input row, a call in
  which a split has no rows either propagates the exception that \<open>predict_proba\<close> raised, or
  returns a RiskScore of level low whose \<open>confidence_gap\<close> is NaN.
\<close>

theorem empty_split_is_not_rejected:
  assumes contract: "\<forall>f p. predict_proba model f = Inr p \<longrightarrow> length p = nrows f \<and> [] \<notin> set p"
    and empty: "nrows train_df = 0 \<or> nrows test_df = 0"
    and d1: "drop_column train_df label_column = Inr train_features"
    and d2: "drop_column test_df label_column = Inr test_features"
  shows "(\<exists>r. evaluate_membership_inference_risk model train_df test_df label_column = Inr r \<and>
              level r = ''low'' \<and>
              getitem (details r) (Str ''confidence_gap'') = Inr (JFloat NaN)) \<or>
         (\<exists>e. evaluate_membership_inference_risk model train_df test_df label_column = Inl e \<and>
              (predict_proba model train_features = Inl e \<or>
               predict_proba model test_features = Inl e))"
proof (cases "predict_proba model train_features")
  case (Inl e)
  then show ?thesis
    using d1 d2 by (simp add: evaluate_membership_inference_risk_def)
next
  case p1: (Inr train_proba)
  from contract p1 have l1: "length train_proba = nrows train_features" and "[] \<notin> set train_proba"
    by blast+
  from row_max_total [OF this(2)] obtain train_conf where m1: "row_max train_proba = Inr train_conf" ..
  show ?thesis
  proof (cases "predict_proba model test_features")
    case (Inl e)
    then show ?thesis
      using d1 d2 p1 m1 by (simp add: evaluate_membership_inference_risk_def)
  next
    case p2: (Inr test_proba)
    from contract p2 have l2: "length test_proba = nrows test_features" and "[] \<notin> set test_proba"
      by blast+
    from row_max_total [OF this(2)] obtain test_conf where m2: "row_max test_proba = Inr test_conf" ..
    from empty l1 l2 drop_column_nrows [OF d1] drop_column_nrows [OF d2]
      row_max_length [OF m1] row_max_length [OF m2]
    have "train_conf = [] \<or> test_conf = []" by auto
    then have "fsub (mean train_conf) (mean test_conf) = NaN"
      by (auto simp: mean_def)
    with membership_Inr [OF d1 d2 p1 m1 p2 m2] show ?thesis by auto
  qed
qed

lemma constant_model_rows:
  "\<forall>f p. predict_proba constant_model f = Inr p \<longrightarrow> length p = nrows f \<and> [] \<notin> set p"
  by (auto simp: constant_model_def)



theorem empty_split_is_not_rejected_witness:
  "nrows \<lparr>nrows = 0, columns = [(''label'', StrCol [])]\<rparr> = 0 \<and>
   (\<exists>r. evaluate_membership_inference_risk constant_model
          \<lparr>nrows = 2, columns = [(''label'', StrCol [''yes'', ''no'']), (''x'', NumCol [1, 2])]\<rparr>
          \<lparr>nrows = 0, columns = [(''label'', StrCol [])]\<rparr> ''label'' = Inr r \<and>
        level r = ''low'' \<and>
        getitem (details r) (Str ''confidence_gap'') = Inr (JFloat NaN))"
proof -
  define train where
    "train = \<lparr>nrows = 2, columns = [(''label'', StrCol [''yes'', ''no'']), (''x'', NumCol [1, 2])]\<rparr>"
  define test where "test = \<lparr>nrows = 0, columns = [(''label'', StrCol [])]\<rparr>"
  have e: "nrows train = 0 \<or> nrows test = 0" by (simp add: test_def)
  have d1: "drop_column train ''label'' = Inr \<lparr>nrows = 2, columns = [(''x'', NumCol [1, 2])]\<rparr>"
    by (simp add: train_def drop_column_def)
  have d2: "drop_column test ''label'' = Inr \<lparr>nrows = 0, columns = []\<rparr>"
    by (simp add: test_def drop_column_def)
  have ok: "\<not> (\<exists>e. predict_proba constant_model \<lparr>nrows = 2, columns = [(''x'', NumCol [1, 2])]\<rparr> = Inl e \<or>
                 predict_proba constant_model \<lparr>nrows = 0, columns = []\<rparr> = Inl e)"
    by (simp add: constant_model_def)
  from empty_split_is_not_rejected [OF constant_model_rows e d1 d2] ok
  have "\<exists>r. evaluate_membership_inference_risk constant_model train test ''label'' = Inr r \<and>
        level r = ''low'' \<and>
        getitem (details r) (Str ''confidence_gap'') = Inr (JFloat NaN)"
    by blast
  then show ?thesis unfolding train_def test_def by simp
qed

text \<open>
  The claim as stated says that the call fails on an empty split. With an empty training
  split and a model that accepts it, the call returns a RiskScore with NaN statistics.
\<close>

theorem empty_training_split_counterexample:
  "evaluate_membership_inference_risk constant_model
      \<lparr>nrows = 0, columns = [(''label'', StrCol [])]\<rparr>
      \<lparr>nrows = 2, columns = [(''label'', StrCol [''yes'', ''no'']), (''x'', NumCol [1, 2])]\<rparr>
      ''label'' =
   Inr \<lparr>name = ''OWASP-ML03-ML04-Privacy'',
        level = ''low'',
        details = [(Str ''train_confidence_mean'', JFloat NaN),
                   (Str ''test_confidence_mean'', JFloat (Fin (9/10))),
                   (Str ''confidence_gap'', JFloat NaN),
                   (Str ''variance_gap'', JFloat NaN)],
        recommendations =
          [''Reduce overfitting (regularisation, more data, early stopping).'',
           ''Consider confidence clipping or logit rounding on inference APIs.'',
           ''Add differential privacy noise before exposing model outputs.'']\<rparr>"
  by (simp add: evaluate_membership_inference_risk_def drop_column_def constant_model_def
      mean_def var_def max_of_def numeral_2_eq_2)

section \<open>Properties of the adversarial stress tester\<close>

lemma add_noise_local:
  "add_noise noise (length h) cs (h @ [f]) =
     (fst (add_noise noise 0 cs [f]), h @ [snd (add_noise noise 0 cs [f]) ! 0])"
proof (induction cs arbitrary: f)
  case Nil
  then show ?case by simp
next
  case (Cons c cs)
  obtain idx column where c: "c = (idx, column)" by (cases c)
  show ?case
  proof (cases "getitem (columns f) column")
    case (Inl e)
    then show ?thesis by (simp add: c)
  next
    case (Inr col)
    then show ?thesis
      by (cases col) (simp_all add: c Cons.IH)
  qed
qed

lemma plant_trigger_local:
  "plant_trigger (length h) m text_column phrase (h @ [f]) =
     (fst (plant_trigger 0 m text_column phrase [f]),
      h @ [snd (plant_trigger 0 m text_column phrase [f]) ! 0])"
proof (cases "getitem (columns f) text_column")
  case (Inl e)
  then show ?thesis by (simp add: plant_trigger_def)
next
  case (Inr col)
  then show ?thesis
    by (cases col) (simp_all add: plant_trigger_def)
qed

text \<open>What a run does, in terms of the frame behind the reference alone.\<close>

lemma run_local:
  assumes "test_df < length h"
  shows "\<exists>r f g.
    run_adversarial_stress_test lib model h test_df label_column numeric_columns text_column
       baseline_accuracy epsilon trigger_phrase rng0 = (r, h @ [f], g) \<and>
    run_adversarial_stress_test lib model [h ! test_df] 0 label_column numeric_columns text_column
       baseline_accuracy epsilon trigger_phrase rng0 = (r, [h ! test_df, f], g)"
proof -
  have a: "(h @ [h ! test_df]) ! test_df = h ! test_df"
    using assms by (simp add: nth_append)
  have l: "add_noise noise (Suc 0) cs [d, f] =
     (fst (add_noise noise 0 cs [f]), [d, snd (add_noise noise 0 cs [f]) ! 0])" for noise cs d f
    using add_noise_local [of noise "[d]" cs f] by simp
  have p: "plant_trigger (Suc 0) m tc ph [d, f] =
     (fst (plant_trigger 0 m tc ph [f]), [d, snd (plant_trigger 0 m tc ph [f]) ! 0])" for m tc ph d f
    using plant_trigger_local [of "[d]" m tc ph f] by simp
  show ?thesis
    unfolding run_adversarial_stress_test_def Let_def
    by (simp add: a l p add_noise_local plant_trigger_local split: sum.splits prod.splits)
qed

text \<open>
  Claim C6. The function writes only to the object it created as a deep copy. Whatever
  the outcome, also when it raises, every object that was in the store before the call is
  unchanged afterwards, the caller's split among them: the store has grown by one object
  at its end.
\<close>

theorem input_split_untouched:
  assumes "test_df < length h"
  shows "take (length h)
           (fst (snd (run_adversarial_stress_test lib model h test_df label_column numeric_columns
              text_column baseline_accuracy epsilon trigger_phrase rng0))) = h \<and>
         fst (snd (run_adversarial_stress_test lib model h test_df label_column numeric_columns
              text_column baseline_accuracy epsilon trigger_phrase rng0)) ! test_df = h ! test_df"
proof -
  from run_local [where lib = lib and model = model and label_column = label_column and numeric_columns = numeric_columns and text_column = text_column and baseline_accuracy = baseline_accuracy and epsilon = epsilon and trigger_phrase = trigger_phrase and ?rng0.0 = rng0, OF assms] obtain r f g where
    "run_adversarial_stress_test lib model h test_df label_column numeric_columns text_column
       baseline_accuracy epsilon trigger_phrase rng0 = (r, h @ [f], g)" by blast
  then show ?thesis using assms by (simp add: nth_append)
qed





text \<open>
  Claim C9, as amended. A call that omits the random source proceeds exactly as a call
  that passes \<^verbatim>\<open>default_rng(42)\<close>: the function creates that generator itself. When the
  caller passes a generator, the constructor is never consulted: replacing it by any
  other function changes nothing, so every draw comes from the generator passed.
\<close>

theorem omitted_rng_is_default_rng_42:
  "run_adversarial_stress_test lib model h test_df label_column numeric_columns text_column
      baseline_accuracy epsilon trigger_phrase None =
   run_adversarial_stress_test lib model h test_df label_column numeric_columns text_column
      baseline_accuracy epsilon trigger_phrase (Some (default_rng lib 42)) \<and>
   (\<forall>d g. run_adversarial_stress_test (lib\<lparr>default_rng := d\<rparr>) model h test_df label_column
             numeric_columns text_column baseline_accuracy epsilon trigger_phrase (Some g) =
          run_adversarial_stress_test lib model h test_df label_column
             numeric_columns text_column baseline_accuracy epsilon trigger_phrase (Some g))"
proof -
  have s: "score_perturbed (lib\<lparr>default_rng := d\<rparr>) = score_perturbed lib" for d
    by (intro ext) (simp add: score_perturbed_def cong: sum.case_cong)
  have n: "noise_scale (lib\<lparr>default_rng := d\<rparr>) = noise_scale lib" for d
    by (intro ext) (simp add: noise_scale_def cong: sum.case_cong)
  show ?thesis
    by (simp add: run_adversarial_stress_test_def s n cong: sum.case_cong prod.case_cong)
qed

lemma getitems_Inr:
  "getitems df cs = Inr sel \<Longrightarrow> list_all2 (\<lambda>c v. map_of (columns df) c = Some v) cs sel"
proof (induction cs arbitrary: sel)
  case Nil
  then show ?case by simp
next
  case (Cons c cs)
  then show ?case
    by (auto simp: getitem_def split: option.splits sum.splits)
qed

lemma stds_Inr:
  "stds sd sel = Inr ss \<Longrightarrow> list_all2 (\<lambda>v s. \<exists>xs. v = NumCol xs \<and> s = sd xs) sel ss"
proof (induction sel arbitrary: ss)
  case Nil
  then show ?case by simp
next
  case (Cons v sel)
  then show ?case
    by (cases v) (auto split: sum.splits)
qed

lemma scale_entry:
  "clip_lower (fmul (replace_0_1 s) (Fin epsilon)) (round64 (1/1000)) =
     (case s of NaN \<Rightarrow> NaN
      | Fin sd \<Rightarrow> Fin (spec_noise_scale (if sd = 0 then 1 else sd) epsilon))"
  by (cases s) (simp_all add: clip_lower_def replace_0_1_def spec_noise_scale_def)

text \<open>What a successful computation of the scale says about the columns and the scale.\<close>

lemma noise_scale_Inr:
  assumes "noise_scale lib df numeric_columns epsilon = Inr scale"
  shows "length scale = length numeric_columns"
    and "j < length numeric_columns \<Longrightarrow>
         \<exists>xs. map_of (columns df) (numeric_columns ! j) = Some (NumCol xs) \<and>
              scale ! j = (case std lib xs of
                             NaN \<Rightarrow> NaN
                           | Fin sd \<Rightarrow> Fin (spec_noise_scale (if sd = 0 then 1 else sd) epsilon))"
proof -
  from assms obtain sel sd where
    g: "getitems df numeric_columns = Inr sel" and
    s: "stds (std lib) sel = Inr sd" and
    sc: "scale = map (\<lambda>s. clip_lower (fmul s (Fin epsilon)) (round64 (1/1000)))
                   (map replace_0_1 sd)"
    by (auto simp: noise_scale_def Let_def split: sum.splits)
  from getitems_Inr [OF g] have l1: "length numeric_columns = length sel"
    and n1: "\<And>j. j < length numeric_columns \<Longrightarrow>
                map_of (columns df) (numeric_columns ! j) = Some (sel ! j)"
    by (simp_all add: list_all2_conv_all_nth)
  from stds_Inr [OF s] have l2: "length sel = length sd"
    and n2: "\<And>j. j < length sel \<Longrightarrow> \<exists>xs. sel ! j = NumCol xs \<and> sd ! j = std lib xs"
    by (simp_all add: list_all2_conv_all_nth)
  show "length scale = length numeric_columns"
    by (simp add: sc l1 l2)
  show "\<exists>xs. map_of (columns df) (numeric_columns ! j) = Some (NumCol xs) \<and>
            scale ! j = (case std lib xs of
                           NaN \<Rightarrow> NaN
                         | Fin sd \<Rightarrow> Fin (spec_noise_scale (if sd = 0 then 1 else sd) epsilon))"
    if j: "j < length numeric_columns"
  proof -
    from j l1 have js: "j < length sel" by simp
    from n2 [OF js] obtain xs where xs: "sel ! j = NumCol xs" "sd ! j = std lib xs" by blast
    from js l2 have "scale ! j =
        clip_lower (fmul (replace_0_1 (sd ! j)) (Fin epsilon)) (round64 (1/1000))"
      by (simp add: sc)
    with xs n1 [OF j] show ?thesis by (simp add: scale_entry)
  qed
qed

text \<open>
  The loop over distinct numeric columns, on the copy alone: it ends without an error, and
  column \<open>j\<close> of the list has received column \<open>i0 + j\<close> of the noise, cell by cell; no other
  column has changed.
\<close>

lemma add_noise_columns:
  assumes "distinct cs"
    and "\<forall>c \<in> set cs. \<exists>xs. map_of (columns f) c = Some (NumCol xs)"
  shows "\<exists>f'. add_noise noise 0 (enumerate i0 cs) [f] = (Inr (), [f']) \<and>
           nrows f' = nrows f \<and>
           (\<forall>j < length cs. \<forall>xs. map_of (columns f) (cs ! j) = Some (NumCol xs) \<longrightarrow>
              map_of (columns f') (cs ! j) =
                Some (NumCol (map (\<lambda>(i, x). round64 (x + noise i (i0 + j))) (enumerate 0 xs)))) \<and>
           (\<forall>c. c \<notin> set cs \<longrightarrow> map_of (columns f') c = map_of (columns f) c)"
  using assms
proof (induction cs arbitrary: i0 f)
  case Nil
  then show ?case by simp
next
  case (Cons c cs)
  from Cons.prems obtain xs where xs: "map_of (columns f) c = Some (NumCol xs)" by auto
  define f1 where
    "f1 = setitem f c (NumCol (map (\<lambda>(i, x). round64 (x + noise i i0)) (enumerate 0 xs)))"
  have m1: "map_of (columns f1) c' =
      (if c' = c then Some (NumCol (map (\<lambda>(i, x). round64 (x + noise i i0)) (enumerate 0 xs)))
       else map_of (columns f) c')" for c'
    by (simp add: f1_def setitem_def update_conv')
  have n1: "nrows f1 = nrows f"
    by (simp add: f1_def setitem_def)
  from Cons.prems have d: "distinct cs" and nc: "c \<notin> set cs" by simp_all
  have prem: "\<forall>c' \<in> set cs. \<exists>xs. map_of (columns f1) c' = Some (NumCol xs)"
    using Cons.prems(2) nc by (auto simp: m1)
  from Cons.IH [OF d prem, of "Suc i0"] obtain f' where
    run: "add_noise noise 0 (enumerate (Suc i0) cs) [f1] = (Inr (), [f'])" and
    rows: "nrows f' = nrows f1" and
    noisy: "\<And>j xs. j < length cs \<Longrightarrow> map_of (columns f1) (cs ! j) = Some (NumCol xs) \<Longrightarrow>
              map_of (columns f') (cs ! j) =
                Some (NumCol (map (\<lambda>(i, x). round64 (x + noise i (Suc i0 + j))) (enumerate 0 xs)))" and
    other: "\<And>c'. c' \<notin> set cs \<Longrightarrow> map_of (columns f') c' = map_of (columns f1) c'"
    by blast
  have step: "add_noise noise 0 (enumerate i0 (c # cs)) [f] = (Inr (), [f'])"
    using run by (simp add: getitem_def xs f1_def)
  have col: "map_of (columns f') ((c # cs) ! j) =
      Some (NumCol (map (\<lambda>(i, x). round64 (x + noise i (i0 + j))) (enumerate 0 ys)))"
    if j: "j < length (c # cs)" and ys: "map_of (columns f) ((c # cs) ! j) = Some (NumCol ys)"
    for j ys
  proof (cases j)
    case 0
    with ys xs have "ys = xs" by simp
    with 0 other [OF nc] show ?thesis by (simp add: m1)
  next
    case (Suc j')
    with j have j': "j' < length cs" by simp
    then have "cs ! j' \<in> set cs" by simp
    with nc have "cs ! j' \<noteq> c" by auto
    with ys Suc have "map_of (columns f1) (cs ! j') = Some (NumCol ys)" by (simp add: m1)
    from noisy [OF j' this] Suc show ?thesis by simp
  qed
  have rest: "map_of (columns f') c' = map_of (columns f) c'" if "c' \<notin> set (c # cs)" for c'
    using that other [of c'] by (simp add: m1)
  from step rows n1 col rest show ?case by auto
qed

text \<open>Planting the trigger phrase writes a column of strings: no numeric column changes.\<close>

lemma plant_trigger_numeric:
  "map_of (columns f) c = Some (NumCol ys) \<Longrightarrow>
   map_of (columns (snd (plant_trigger 0 m text_column phrase [f]) ! 0)) c = Some (NumCol ys)"
  by (auto simp: plant_trigger_def getitem_def setitem_def update_conv'
      split: option.splits column.splits)

text \<open>
  The numeric columns of the perturbed copy of a run: the columns of the split, each cell
  with the noise that the generator of the run drew at the scale computed from the split.
\<close>

lemma run_copy_numeric:
  assumes t: "test_df < length h"
    and sc: "noise_scale lib (h ! test_df) numeric_columns epsilon = Inr scale"
    and dist: "distinct numeric_columns"
    and j: "j < length numeric_columns"
  shows "\<exists>xs. map_of (columns (h ! test_df)) (numeric_columns ! j) = Some (NumCol xs) \<and>
     map_of (columns (perturbed_copy
         (run_adversarial_stress_test lib model h test_df label_column numeric_columns
            text_column baseline_accuracy epsilon trigger_phrase rng0)))
       (numeric_columns ! j) =
     Some (NumCol (map (\<lambda>(i, x). round64 (x +
              fst (rng_normal lib (case rng0 of None \<Rightarrow> default_rng lib 42 | Some g \<Rightarrow> g) scale
                     (nrows (h ! test_df)) (length numeric_columns)) i j))
            (enumerate 0 xs)))"
proof -
  define df where "df = h ! test_df"
  define rng where "rng = (case rng0 of None \<Rightarrow> default_rng lib 42 | Some g \<Rightarrow> g)"
  define noise where "noise = fst (rng_normal lib rng scale (nrows df) (length numeric_columns))"
  define rng1 where "rng1 = snd (rng_normal lib rng scale (nrows df) (length numeric_columns))"
  have rn: "rng_normal lib rng scale (nrows df) (length numeric_columns) = (noise, rng1)"
    by (simp add: noise_def rng1_def)
  have a: "(h @ [h ! test_df]) ! test_df = df"
    using t by (simp add: nth_append df_def)
  have num: "\<forall>c \<in> set numeric_columns. \<exists>xs. map_of (columns df) c = Some (NumCol xs)"
  proof
    fix c assume "c \<in> set numeric_columns"
    then obtain i where i: "i < length numeric_columns" and c: "c = numeric_columns ! i"
      by (auto simp: in_set_conv_nth)
    from noise_scale_Inr(2) [OF sc i] c show "\<exists>xs. map_of (columns df) c = Some (NumCol xs)"
      by (auto simp: df_def)
  qed
  from add_noise_columns [OF dist num, of noise 0] obtain f2 where
    an: "add_noise noise 0 (enumerate 0 numeric_columns) [df] = (Inr (), [f2])" and
    noisy: "\<And>j xs. j < length numeric_columns \<Longrightarrow>
              map_of (columns df) (numeric_columns ! j) = Some (NumCol xs) \<Longrightarrow>
              map_of (columns f2) (numeric_columns ! j) =
                Some (NumCol (map (\<lambda>(i, x). round64 (x + noise i j)) (enumerate 0 xs)))"
    by auto
  define u where "u = fst (rng_random lib rng1 (nrows f2))"
  define rng2 where "rng2 = snd (rng_random lib rng1 (nrows f2))"
  have rr: "rng_random lib rng1 (nrows f2) = (u, rng2)"
    by (simp add: u_def rng2_def)
  define trigger_mask where "trigger_mask = map (\<lambda>i. u i < round64 (3/10)) [0..<nrows f2]"
  define f3 where "f3 = snd (plant_trigger 0 trigger_mask text_column trigger_phrase [f2]) ! 0"
  have an': "add_noise noise (length h) (enumerate 0 numeric_columns) (h @ [df]) =
      (Inr (), h @ [f2])"
    by (simp add: add_noise_local an)
  have pt: "plant_trigger (length h) trigger_mask text_column trigger_phrase (h @ [f2]) =
      (fst (plant_trigger 0 trigger_mask text_column trigger_phrase [f2]), h @ [f3])"
    by (simp add: plant_trigger_local f3_def)
  have store: "fst (snd (run_adversarial_stress_test lib model h test_df label_column
      numeric_columns text_column baseline_accuracy epsilon trigger_phrase rng0)) = h @ [f3]"
    unfolding run_adversarial_stress_test_def Let_def rng_def [symmetric] a
    using sc
    by (simp add: df_def [symmetric] rn an' rr trigger_mask_def [symmetric] pt
        split: sum.splits)
  from noise_scale_Inr(2) [OF sc j] obtain xs where
    xs: "map_of (columns df) (numeric_columns ! j) = Some (NumCol xs)"
    by (auto simp: df_def)
  from plant_trigger_numeric [OF noisy [OF j xs]]
  have "map_of (columns f3) (numeric_columns ! j) =
      Some (NumCol (map (\<lambda>(i, x). round64 (x + noise i j)) (enumerate 0 xs)))"
    by (simp add: f3_def)
  with xs store show ?thesis
    by (auto simp: perturbed_copy_def df_def noise_def rng_def)
qed

text \<open>
  Claim C4, as amended. The scale computed from the original split has one entry per
  numeric column, in the order of \<open>numeric_columns\<close>; the entry of a column is
  \<open>max (s \<sqdot> epsilon) 0.001\<close>, in double arithmetic, where \<open>s\<close> is the standard deviation that
  pandas computes for the column of that split, except that a computed standard deviation
  of exactly 0 is replaced by 1 first (a column of an empty split has the standard
  deviation NaN and the scale NaN). This scale is what the noise is drawn with, and the
  noise drawn is what the copy receives: when the numeric columns are distinct, every cell
  of numeric column \<open>j\<close> of the perturbed copy is the double sum of the cell of the split and
  of entry \<open>j\<close> in its row of the array that the generator of the run (the one passed, or
  \<^verbatim>\<open>default_rng(42)\<close>) returns for the normal draw with that scale.
\<close>

theorem noise_scale_per_column:
  assumes "noise_scale lib df numeric_columns epsilon = Inr scale"
  shows "length scale = length numeric_columns \<and>
         (\<forall>j < length numeric_columns. \<exists>xs.
            map_of (columns df) (numeric_columns ! j) = Some (NumCol xs) \<and>
            scale ! j = (case std lib xs of
                           NaN \<Rightarrow> NaN
                         | Fin sd \<Rightarrow> Fin (spec_noise_scale (if sd = 0 then 1 else sd) epsilon))) \<and>
         (test_df < length h \<and> h ! test_df = df \<and> distinct numeric_columns \<longrightarrow>
          (\<forall>j < length numeric_columns. \<exists>xs.
             map_of (columns df) (numeric_columns ! j) = Some (NumCol xs) \<and>
             map_of (columns (perturbed_copy
                 (run_adversarial_stress_test lib model h test_df label_column numeric_columns
                    text_column baseline_accuracy epsilon trigger_phrase rng0)))
               (numeric_columns ! j) =
             Some (NumCol (map (\<lambda>(i, x). round64 (x +
                      fst (rng_normal lib
                             (case rng0 of None \<Rightarrow> default_rng lib 42 | Some g \<Rightarrow> g) scale
                             (nrows df) (length numeric_columns)) i j))
                    (enumerate 0 xs)))))"
proof -
  have copy: "\<exists>xs.
             map_of (columns df) (numeric_columns ! j) = Some (NumCol xs) \<and>
             map_of (columns (perturbed_copy
                 (run_adversarial_stress_test lib model h test_df label_column numeric_columns
                    text_column baseline_accuracy epsilon trigger_phrase rng0)))
               (numeric_columns ! j) =
             Some (NumCol (map (\<lambda>(i, x). round64 (x +
                      fst (rng_normal lib
                             (case rng0 of None \<Rightarrow> default_rng lib 42 | Some g \<Rightarrow> g) scale
                             (nrows df) (length numeric_columns)) i j))
                    (enumerate 0 xs)))"
    if "test_df < length h" and "h ! test_df = df" and "distinct numeric_columns"
      and "j < length numeric_columns" for j
    using run_copy_numeric [of test_df h lib numeric_columns epsilon scale j model label_column
        text_column baseline_accuracy trigger_phrase rng0] that assms
    by simp
  from noise_scale_Inr [OF assms] copy show ?thesis by blast
qed

text \<open>
  The stand-in standard deviation on three columns. The sum and the mean of 1 and 3 and of
  5 and 5 are exact. The sum of three times the double 0.1 is not: it is rounded to
  0.30000000000000004, a third of it to 0.10000000000000002, and the standard deviation
  of the constant column is \<open>2\<^sup>-\<^sup>5\<^sup>6\<close>, about 1.39e-17, not 0.
\<close>

lemma two_pass_std_1_3: "two_pass_std [1, 3] = Fin 1"
  by (simp add: two_pass_std_def fsum_def round64_of_int [of "- 1", simplified])

lemma two_pass_std_5_5: "two_pass_std [5, 5] = Fin 0"
  by (simp add: two_pass_std_def fsum_def)

lemma two_pass_std_tenths:
  "two_pass_std [3602879701896397 / 36028797018963968, 3602879701896397 / 36028797018963968,
                 3602879701896397 / 36028797018963968] = Fin (1 / 72057594037927936)"
proof -
  have r0: "round64 (3602879701896397 / 36028797018963968) = 3602879701896397 / 36028797018963968"
    using round64_dyadic [of "3602879701896397" "-55"] by simp
  have r1: "round64 (3602879701896397 / 18014398509481984) = 3602879701896397 / 18014398509481984"
    using round64_dyadic [of "3602879701896397" "-54"] by simp
  have r2: "round64 (10808639105689191 / 36028797018963968) = 1351079888211149 / 4503599627370496"
    by (simp add: round64_normal [of "-2"] round_half_even_def)
  have r3: "round64 (1351079888211149 / 13510798882111488) = 7205759403792795 / 72057594037927936"
    by (simp add: round64_normal [of "-4"] round_half_even_def)
  have r4: "round64 (1 / 72057594037927936) = 1 / 72057594037927936"
    using round64_dyadic [of "1" "-56"] by simp
  have r5: "round64 (1 / 5192296858534827628530496329220096) = 1 / 5192296858534827628530496329220096"
    using round64_dyadic [of "1" "-112"] by simp
  have r6: "round64 (1 / 2596148429267413814265248164610048) = 1 / 2596148429267413814265248164610048"
    using round64_dyadic [of "1" "-111"] by simp
  have r7: "round64 (3 / 5192296858534827628530496329220096) = 3 / 5192296858534827628530496329220096"
    using round64_dyadic [of "3" "-112"] by simp
  have s: "sqrt (1 / 5192296858534827628530496329220096) = 1 / 72057594037927936"
    by (rule real_sqrt_unique) (simp_all add: power2_eq_square)
  show ?thesis
    by (simp add: two_pass_std_def fsum_def r0 r1 r2 r3 r4 r5 r6 r7 s power2_eq_square)
qed

text \<open>Some doubles with few bits.\<close>

lemma small_doubles:
  "round64 (1/2) = 1/2" "round64 (1/8) = 1/8" "round64 (3/8) = 3/8" "round64 (7/8) = 7/8"
  "round64 (9/8) = 9/8" "round64 (25/8) = 25/8"
  "round64 (1/16) = 1/16" "round64 (17/16) = 17/16" "round64 (49/16) = 49/16"
  "round64 (81/16) = 81/16"
  using round64_dyadic [of 1 "-1"] round64_dyadic [of 1 "-3"] round64_dyadic [of 3 "-3"]
    round64_dyadic [of 7 "-3"] round64_dyadic [of 9 "-3"] round64_dyadic [of 25 "-3"]
    round64_dyadic [of 1 "-4"] round64_dyadic [of 17 "-4"] round64_dyadic [of 49 "-4"]
    round64_dyadic [of 81 "-4"]
  by simp_all

text \<open>
  The column of three times 0.1 with epsilon 0.05: the standard deviation is not 0, the
  product with epsilon is far below 0.001, and the scale is the double 0.001.
\<close>

lemma tenths_column_scale:
  "noise_scale counter_library
     \<lparr>nrows = 3,
      columns = [(''c'', NumCol [3602879701896397 / 36028797018963968,
                                 3602879701896397 / 36028797018963968,
                                 3602879701896397 / 36028797018963968])]\<rparr>
     [''c''] (3602879701896397 / 72057594037927936) =
   Inr [Fin (1152921504606847 / 1152921504606846976)]"
proof -
  have p: "round64 (3602879701896397 / 5192296858534827628530496329220096) =
      3602879701896397 / 5192296858534827628530496329220096"
    using round64_dyadic [of "3602879701896397" "-112"] by simp
  show ?thesis
    by (simp add: noise_scale_def getitem_def counter_library_def two_pass_std_tenths
        replace_0_1_def clip_lower_def double_0_001 p)
qed

theorem noise_scale_per_column_witness:
  "noise_scale counter_library
      \<lparr>nrows = 2, columns = [(''label'', StrCol [''yes'', ''no'']),
                             (''x'', NumCol [1, 3]), (''y'', NumCol [5, 5]),
                             (''text'', StrCol [''a'', ''b''])]\<rparr>
      [''x'', ''y''] (1/16) = Inr [Fin (1/16), Fin (1/16)] \<and>
   std counter_library [1, 3] = Fin 1 \<and> spec_noise_scale 1 (1/16) = 1/16 \<and>
   std counter_library [5, 5] = Fin 0 \<and>
   fst (rng_normal counter_library 42 [Fin (1/16), Fin (1/16)] 2 2) 0 0 = 1/16 \<and>
   map_of (columns (perturbed_copy
      (run_adversarial_stress_test counter_library constant_model
         [\<lparr>nrows = 2, columns = [(''label'', StrCol [''yes'', ''no'']),
                                 (''x'', NumCol [1, 3]), (''y'', NumCol [5, 5]),
                                 (''text'', StrCol [''a'', ''b''])]\<rparr>]
         0 ''label'' [''x'', ''y''] ''text'' (7/8) (1/16) ''zz'' (Some 42)))) ''x'' =
     Some (NumCol [17/16, 49/16]) \<and>
   map_of (columns (perturbed_copy
      (run_adversarial_stress_test counter_library constant_model
         [\<lparr>nrows = 2, columns = [(''label'', StrCol [''yes'', ''no'']),
                                 (''x'', NumCol [1, 3]), (''y'', NumCol [5, 5]),
                                 (''text'', StrCol [''a'', ''b''])]\<rparr>]
         0 ''label'' [''x'', ''y''] ''text'' (7/8) (1/16) ''zz'' (Some 42)))) ''y'' =
     Some (NumCol [81/16, 81/16])"
proof -
  define df where "df = \<lparr>nrows = 2, columns = [(''label'', StrCol [''yes'', ''no'']),
                             (''x'', NumCol [1, 3]), (''y'', NumCol [5, 5]),
                             (''text'', StrCol [''a'', ''b''])]\<rparr>"
  have sx: "std counter_library [1, 3] = Fin 1" and sy: "std counter_library [5, 5] = Fin 0"
    by (simp_all add: counter_library_def two_pass_std_1_3 two_pass_std_5_5)
  have sp: "spec_noise_scale 1 (1/16) = 1/16"
    by (simp add: spec_noise_scale_def small_doubles double_0_001)
  have e: "noise_scale counter_library df [''x'', ''y''] (1/16) = Inr [Fin (1/16), Fin (1/16)]"
    by (simp add: df_def noise_scale_def getitem_def sx sy replace_0_1_def clip_lower_def
        small_doubles double_0_001)
  have n: "fst (rng_normal counter_library 42 [Fin (1/16), Fin (1/16)] 2 2) i j = 1/16"
    if "j < 2" for i j :: nat
  proof -
    from that have "j = 0 \<or> j = 1" by auto
    then show ?thesis by (auto simp: counter_library_def)
  qed
  have hyp: "(0::nat) < length [df] \<and> [df] ! 0 = df \<and> distinct [''x'', ''y'']"
    by simp
  from noise_scale_per_column [OF e, of 0 "[df]" constant_model "''label''" "''text''" "7/8"
      "''zz''" "Some 42"] hyp
  have copy: "\<forall>j < length [''x'', ''y'']. \<exists>xs.
             map_of (columns df) ([''x'', ''y''] ! j) = Some (NumCol xs) \<and>
             map_of (columns (perturbed_copy
                 (run_adversarial_stress_test counter_library constant_model [df] 0 ''label''
                    [''x'', ''y''] ''text'' (7/8) (1/16) ''zz'' (Some 42))))
               ([''x'', ''y''] ! j) =
             Some (NumCol (map (\<lambda>(i, x). round64 (x +
                      fst (rng_normal counter_library
                             (case Some 42 of None \<Rightarrow> default_rng counter_library 42 | Some g \<Rightarrow> g)
                             [Fin (1/16), Fin (1/16)]
                             (nrows df) (length [''x'', ''y''])) i j))
                    (enumerate 0 xs)))"
    by blast
  have l: "length [''x'', ''y''] = 2" "nrows df = 2"
    by (simp_all add: df_def)
  from copy [rule_format, of 0]
  have cx: "map_of (columns (perturbed_copy
                 (run_adversarial_stress_test counter_library constant_model [df] 0 ''label''
                    [''x'', ''y''] ''text'' (7/8) (1/16) ''zz'' (Some 42)))) ''x'' =
            Some (NumCol [17/16, 49/16])"
    unfolding l by (auto simp: df_def n small_doubles enumerate_eq_zip)
  from copy [rule_format, of 1]
  have cy: "map_of (columns (perturbed_copy
                 (run_adversarial_stress_test counter_library constant_model [df] 0 ''label''
                    [''x'', ''y''] ''text'' (7/8) (1/16) ''zz'' (Some 42)))) ''y'' =
            Some (NumCol [81/16, 81/16])"
    unfolding l by (auto simp: df_def n small_doubles enumerate_eq_zip)
  from e sx sp sy n [of 0 0] cx cy show ?thesis
    unfolding df_def by simp
qed

text \<open>
  The claim as stated gives a column whose standard deviation is 0 the scale 0.001
  whenever \<open>epsilon \<sqdot> 0 < 0.001\<close>. The column [5, 5] has the standard deviation 0; with
  epsilon = 0.0625 it receives the scale 0.0625, and \<open>max (0 \<sqdot> epsilon) 0.001\<close> is the double
  0.001.
\<close>

theorem constant_column_scale_counterexample:
  "noise_scale counter_library \<lparr>nrows = 2, columns = [(''y'', NumCol [5, 5])]\<rparr> [''y''] (1/16) =
     Inr [Fin (1/16)] \<and>
   std counter_library [5, 5] = Fin 0 \<and>
   spec_noise_scale 0 (1/16) = 1152921504606847 / 1152921504606846976"
  by (simp add: noise_scale_def getitem_def counter_library_def two_pass_std_5_5 replace_0_1_def
      clip_lower_def spec_noise_scale_def small_doubles double_0_001)

theorem input_split_untouched_witness:
  "(0::nat) < length [\<lparr>nrows = 2, columns = [(''label'', StrCol [''yes'', ''no'']),
                                               (''x'', NumCol [1, 3]),
                                               (''text'', StrCol [''a'', ''b''])]\<rparr>] \<and>
   fst (snd (run_adversarial_stress_test counter_library constant_model
        [\<lparr>nrows = 2, columns = [(''label'', StrCol [''yes'', ''no'']),
                                (''x'', NumCol [1, 3]),
                                (''text'', StrCol [''a'', ''b''])]\<rparr>]
        0 ''label'' [''x''] ''text'' (9/10) (1/20) ''zz'' (Some 7))) ! 0 =
     \<lparr>nrows = 2, columns = [(''label'', StrCol [''yes'', ''no'']),
                            (''x'', NumCol [1, 3]),
                            (''text'', StrCol [''a'', ''b''])]\<rparr>"
proof -
  define df where "df = \<lparr>nrows = 2, columns = [(''label'', StrCol [''yes'', ''no'']),
                                               (''x'', NumCol [1, 3]),
                                               (''text'', StrCol [''a'', ''b''])]\<rparr>"
  have h: "(0::nat) < length [df]" by simp
  from input_split_untouched [OF h, of counter_library constant_model "''label''" "[''x'']" "''text''"
      "9/10" "1/20" "''zz''" "Some 7"] h
  show ?thesis unfolding df_def by simp
qed


text \<open>
  The same split and generator state in a second environment whose normal draw is twice as
  large: the perturbed copy differs. The agreement of the two environments on the draws
  is a hypothesis that the conclusion of claim C7 needs.
\<close>

lemma different_draws_different_copy:
  "perturbed_copy (run_adversarial_stress_test doubling_library constant_model
        [\<lparr>nrows = 2, columns = [(''label'', StrCol [''yes'', ''no'']),
                                (''x'', NumCol [1, 3]),
                                (''text'', StrCol [''a'', ''b''])]\<rparr>]
        0 ''label'' [''x''] ''text'' (7/8) (1/16) ''zz'' (Some 42)) =
     \<lparr>nrows = 2, columns = [(''label'', StrCol [''yes'', ''no'']),
                            (''x'', NumCol [9/8, 25/8]),
                            (''text'', StrCol [''a'', ''b zz''])]\<rparr>"
proof -
  have u: "[0..<2] = [0, Suc 0]"
    by (simp add: upt_rec numeral_2_eq_2)
  have r: "replicate 2 x = [x, x]" for x :: scalar
    by (simp add: numeral_2_eq_2)
  show ?thesis
    by (simp add: perturbed_copy_def run_adversarial_stress_test_def noise_scale_def getitem_def
        two_pass_std_1_3 doubling_library_def
        replace_0_1_def clip_lower_def counter_library_def constant_model_def setitem_def
        plant_trigger_def score_perturbed_def drop_column_def accuracy_fraction_def
        proportion_def pymax_def select_rows_def select_def count_true_def mean_differs_def
        enumerate_eq_zip u r Let_def small_doubles double_0_001 double_0_1 double_0_2
        double_0_3)
qed


text \<open>
  The claim as stated says that a call without a random source cannot proceed. It does:
  with the stand-in library, whose generator is a counter started at the seed, the call
  returns a RiskScore and leaves the counter at 44, two draws after the seed 42.
\<close>

theorem omitted_rng_proceeds_counterexample:
  "run_adversarial_stress_test counter_library constant_model
        [\<lparr>nrows = 2, columns = [(''label'', StrCol [''yes'', ''no'']),
                                (''x'', NumCol [1, 3]),
                                (''text'', StrCol [''a'', ''b''])]\<rparr>]
        0 ''label'' [''x''] ''text'' (7/8) (1/16) ''zz'' None =
   (Inr \<lparr>name = ''OWASP-ML01-AdversarialEvasion'',
         level = ''high'',
         details = [(Str ''baseline_accuracy'', JFloat (Fin (7/8))),
                    (Str ''adversarial_accuracy'', JFloat (Fin (1/2))),
                    (Str ''accuracy_degradation'', JFloat (Fin (3/8))),
                    (Str ''triggered_subset_size'', JInt 1),
                    (Str ''targeted_success_rate'', JFloat (Fin 1))],
         recommendations =
           [''Introduce adversarial training (FGSM/PGD) in CI pipelines.'',
            ''Limit inference outputs to class labels or rounded confidences.'',
            ''Add rate limiting and anomaly detection around inference APIs.'']\<rparr>,
    [\<lparr>nrows = 2, columns = [(''label'', StrCol [''yes'', ''no'']),
                            (''x'', NumCol [1, 3]),
                            (''text'', StrCol [''a'', ''b''])]\<rparr>,
     \<lparr>nrows = 2, columns = [(''label'', StrCol [''yes'', ''no'']),
                            (''x'', NumCol [17/16, 49/16]),
                            (''text'', StrCol [''a'', ''b zz''])]\<rparr>],
    44)"
proof -
  have u: "[0..<2] = [0, Suc 0]"
    by (simp add: upt_rec numeral_2_eq_2)
  have r: "replicate 2 x = [x, x]" for x :: scalar
    by (simp add: numeral_2_eq_2)
  show ?thesis
    by (simp add: run_adversarial_stress_test_def noise_scale_def getitem_def two_pass_std_1_3
        replace_0_1_def clip_lower_def counter_library_def constant_model_def setitem_def
        plant_trigger_def score_perturbed_def drop_column_def accuracy_fraction_def
        proportion_def pymax_def select_rows_def select_def count_true_def mean_differs_def
        enumerate_eq_zip u r Let_def small_doubles double_0_001 double_0_1 double_0_2
        double_0_3)
qed

text \<open>
  The accuracy 0.8 against the baseline 1: the difference is the double
  0.19999999999999996, which is below the double 0.2 and not below the double 0.1.
\<close>

lemma degradation_of_one_fifth:
  "pymax (Fin 0) (fsub (Fin 1) (Fin (round64 (8/10)))) = Fin (900719925474099 / 4503599627370496) \<and>
   \<not> fge (Fin (900719925474099 / 4503599627370496)) (Fin (round64 (2/10))) \<and>
   fge (Fin (900719925474099 / 4503599627370496)) (Fin (round64 (1/10)))"
proof -
  have d: "round64 (900719925474099 / 4503599627370496) = 900719925474099 / 4503599627370496"
    using round64_dyadic [of "900719925474099" "-52"] by simp
  show ?thesis
    by (simp add: pymax_def double_0_8 double_0_2 double_0_1 d)
qed

end
